theory Spec2Isabelle
  imports Complex_Main "HOL-Library.AList"
begin

section \<open>Go values used by the server\<close>

text \<open>
  Go strings are byte sequences and \<open>len\<close> counts bytes, so a Go string is a
  \<^typ>\<open>string\<close> and \<open>len s\<close> is \<^term>\<open>length s\<close>. Go's \<open>int\<close> is modelled
  by \<^typ>\<open>int\<close>; the only arithmetic the modelled code performs on it is comparison.
\<close>

subsection \<open>Errors (internal/core/domain/errors.go)\<close>

text \<open>
  The sentinel errors of package \<open>domain\<close>. An error value is a sentinel, an error built
  by \<open>fmt.Errorf\<close> around one \<open>%w\<close> operand (the text before it, the wrapped error,
  the text after it), or an error without a wrapped operand (an \<open>fmt.Errorf\<close> with no
  \<open>%w\<close>, or an error of a library). \<open>errors_Is\<close> is Go's \<open>errors.Is\<close> against a
  sentinel: it follows the chain of wrapped errors.
\<close>

datatype sentinel =
    ErrAPIKeyMissing
  | ErrInvalidQuery
  | ErrInvalidModel
  | ErrInvalidRequest
  | ErrRateLimited
  | ErrAPIError
  | ErrNetworkError
  | ErrTimeout
  | ErrToolNotFound
  | ErrToolExecution
  | ErrMCPProtocol
  | ErrConfigurationError

fun sentinel_text :: "sentinel \<Rightarrow> string" where
  "sentinel_text ErrAPIKeyMissing = ''perplexity API key not configured''"
| "sentinel_text ErrInvalidQuery = ''invalid search query''"
| "sentinel_text ErrInvalidModel = ''invalid model specified''"
| "sentinel_text ErrInvalidRequest = ''invalid request parameters''"
| "sentinel_text ErrRateLimited = ''rate limit exceeded''"
| "sentinel_text ErrAPIError = ''perplexity API error''"
| "sentinel_text ErrNetworkError = ''network connection error''"
| "sentinel_text ErrTimeout = ''request timeout''"
| "sentinel_text ErrToolNotFound = ''tool not found''"
| "sentinel_text ErrToolExecution = ''tool execution failed''"
| "sentinel_text ErrMCPProtocol = ''MCP protocol error''"
| "sentinel_text ErrConfigurationError = ''configuration error''"

datatype go_error =
    Sentinel sentinel
  | Wrap string go_error string
  | Opaque string

fun error_text :: "go_error \<Rightarrow> string" where
  "error_text (Sentinel s) = sentinel_text s"
| "error_text (Wrap before e after) = before @ error_text e @ after"
| "error_text (Opaque m) = m"

fun errors_Is :: "go_error \<Rightarrow> sentinel \<Rightarrow> bool" where
  "errors_Is (Sentinel s) t = (s = t)"
| "errors_Is (Wrap before e after) t = errors_Is e t"
| "errors_Is (Opaque m) t = False"

subsection \<open>Formatting integers (the \<open>%d\<close> verb)\<close>

fun nat_digits :: "nat \<Rightarrow> string" where
  "nat_digits n =
     (if n < 10 then [''0123456789'' ! n]
      else nat_digits (n div 10) @ [''0123456789'' ! (n mod 10)])"

declare nat_digits.simps [simp del]

definition itoa :: "int \<Rightarrow> string" where
  "itoa i = (if i < 0 then CHR ''-'' # nat_digits (nat (- i)) else nat_digits (nat i))"

subsection \<open>Library functions the code calls\<close>

text \<open>
  \<open>strings.TrimSpace\<close>, \<open>strings.ToLower\<close> and \<open>strconv.ParseFloat\<close> belong to
  the Go standard library, not to the repository; they work on Unicode code points and on
  IEEE floating point. The model takes them as the fields of a record, and the theorems
  about the code hold for all values of these fields; a concrete library serves only to
  evaluate the model on example inputs. \<open>ParseFloat\<close> returns \<open>None\<close> where the
  library returns a non-nil error, and a \<open>float64\<close> is a rational, an infinity or
  not-a-number.
\<close>

datatype float64 = Finite rat | PosInf | NegInf | NaN

fun f64_ge :: "float64 \<Rightarrow> rat \<Rightarrow> bool" where
  "f64_ge (Finite x) b = (x \<ge> b)"
| "f64_ge PosInf b = True"
| "f64_ge NegInf b = False"
| "f64_ge NaN b = False"

fun f64_le :: "float64 \<Rightarrow> rat \<Rightarrow> bool" where
  "f64_le (Finite x) b = (x \<le> b)"
| "f64_le PosInf b = False"
| "f64_le NegInf b = True"
| "f64_le NaN b = False"


section \<open>Wire and result types\<close>

subsection \<open>Wire types (internal/adapters/perplexity/models.go)\<close>

record APIMessage =
  msg_Role :: string
  msg_Content :: string

text \<open>Pointer fields (\<open>*int\<close>, \<open>*float64\<close>, \<open>*bool\<close>) are options; nil is \<open>None\<close>.\<close>

record APIChatRequest =
  req_Model :: string
  req_Messages :: "APIMessage list"
  req_MaxTokens :: "int option"
  req_Temperature :: "float64 option"
  req_TopP :: "float64 option"
  req_Stream :: bool
  req_SearchMode :: string
  req_DisableSearch :: "bool option"
  req_SearchDomainFilter :: "string list"
  req_ReasoningEffort :: string

record APIUsage =
  api_PromptTokens :: int
  api_CompletionTokens :: int
  api_TotalTokens :: int

record APICitation =
  api_Number :: int
  api_cit_URL :: string
  api_cit_Title :: string

record APISource =
  api_src_URL :: string
  api_src_Title :: string
  api_Snippet :: string

record APIChoice =
  choice_Index :: int
  choice_Message :: APIMessage
  choice_FinishReason :: string

record APIChatResponse =
  api_ID :: string
  api_Object :: string
  api_Created :: int
  api_Model :: string
  api_Choices :: "APIChoice list"
  api_Usage :: APIUsage
  api_Citations :: "APICitation list"
  api_Sources :: "APISource list"

definition GetCreatedTime :: "APIChatResponse \<Rightarrow> int" where
  "GetCreatedTime r = api_Created r"

definition GetContent :: "APIChatResponse \<Rightarrow> string" where
  "GetContent r = (case api_Choices r of c # rest \<Rightarrow> msg_Content (choice_Message c) | [] \<Rightarrow> [])"

subsection \<open>Domain results (internal/core/domain/entities.go)\<close>

record Usage =
  PromptTokens :: int
  CompletionTokens :: int
  TotalTokens :: int

record Citation =
  Number :: int
  cit_URL :: string
  cit_Title :: string

record Source =
  src_URL :: string
  src_Title :: string
  Snippet :: string

record SearchResult =
  res_ID :: string
  res_Content :: string
  res_Model :: string
  res_Usage :: Usage
  res_Citations :: "Citation list"
  res_Sources :: "Source list"
  res_Created :: int

subsection \<open>The library record\<close>

text \<open>
  The fields for the HTTP and JSON libraries: \<open>NewRequestErr url\<close> is the error text of
  \<open>http.NewRequestWithContext\<close> for that URL (\<open>None\<close> when the request is built);
  \<open>UnmarshalAPIError body\<close> is \<open>Some m\<close> when \<open>json.Unmarshal\<close> of the body into
  an \<open>APIErrorResponse\<close> returns no error, \<open>m\<close> being the decoded
  \<open>Error.Error.Message\<close>; \<open>UnmarshalChatResponse body\<close> is the decoded
  \<open>APIChatResponse\<close> or the text of the decoding error.
\<close>

record golib =
  TrimSpace :: "string \<Rightarrow> string"
  ToLower :: "string \<Rightarrow> string"
  ParseFloat :: "string \<Rightarrow> float64 option"
  NewRequestErr :: "string \<Rightarrow> string option"
  UnmarshalAPIError :: "string \<Rightarrow> string option"
  UnmarshalChatResponse :: "string \<Rightarrow> string + APIChatResponse"

section \<open>Search requests and their validation (internal/core/domain/entities.go)\<close>

definition MaxQueryLength :: nat where "MaxQueryLength = 10000"
definition MaxOptionsCount :: nat where "MaxOptionsCount = 20"
definition MaxOptionKeyLength :: nat where "MaxOptionKeyLength = 100"
definition MaxOptionValueLength :: nat where "MaxOptionValueLength = 1000"
definition MaxSourcesCount :: nat where "MaxSourcesCount = 10"

text \<open>
  \<open>Options\<close> is a Go map. It is modelled by the list of its entries in the order in
  which one \<open>range\<close> loop visits them (Go leaves that order unspecified, and the theorems
  hold for every list); the nil map and the empty map are both the empty list, and
  \<open>len\<close> of the map is the length of the list.
\<close>

record SearchRequest =
  Query :: string
  Model :: string
  SearchMode :: string
  MaxTokens :: int
  DateRange :: string
  Sources :: "string list"
  Options :: "(string \<times> string) list"

definition validSonarModels :: "string list" where
  "validSonarModels =
     [''sonar'', ''sonar-pro'', ''sonar-reasoning'', ''sonar-reasoning-pro'',
      ''sonar-deep-research'']"

definition validSearchModes :: "string list" where
  "validSearchModes = [''web'', ''academic'', ''news'']"

definition validDateRanges :: "string list" where
  "validDateRanges = [''day'', ''week'', ''month'', ''year'']"

definition invalid_request :: "string \<Rightarrow> go_error" where
  "invalid_request detail = Wrap [] (Sentinel ErrInvalidRequest) ('': '' @ detail)"

text \<open>The loop over the options at the end of \<open>Validate\<close>.\<close>

fun validate_options :: "(string \<times> string) list \<Rightarrow> go_error option" where
  "validate_options [] = None"
| "validate_options ((key, val) # rest) =
     (if length key > MaxOptionKeyLength then
        Some (invalid_request (''option key length '' @ itoa (int (length key))
                @ '' exceeds maximum '' @ itoa (int MaxOptionKeyLength)))
      else if length val > MaxOptionValueLength then
        Some (invalid_request (''option value length '' @ itoa (int (length val))
                @ '' exceeds maximum '' @ itoa (int MaxOptionValueLength)))
      else validate_options rest)"

definition Validate :: "golib \<Rightarrow> SearchRequest \<Rightarrow> go_error option" where
  "Validate L r =
     (if TrimSpace L (Query r) = [] then Some (Sentinel ErrInvalidQuery)
      else if length (Query r) > MaxQueryLength then
        Some (invalid_request (''query length '' @ itoa (int (length (Query r)))
                @ '' exceeds maximum '' @ itoa (int MaxQueryLength)))
      else if MaxTokens r < 0 then
        Some (invalid_request ''max_tokens cannot be negative'')
      else if MaxTokens r > 128000 then
        Some (invalid_request (''max_tokens '' @ itoa (MaxTokens r)
                @ '' exceeds maximum 128000''))
      else if Model r \<noteq> [] \<and> Model r \<notin> set validSonarModels then
        Some (invalid_request (''invalid model '' @ [CHR 0x27] @ Model r @ [CHR 0x27]
                @ '', must be one of: sonar, sonar-pro, sonar-reasoning, sonar-reasoning-pro, sonar-deep-research''))
      else if SearchMode r \<noteq> [] \<and> SearchMode r \<notin> set validSearchModes then
        Some (invalid_request (''invalid search_mode '' @ [CHR 0x27] @ SearchMode r @ [CHR 0x27]
                @ '', must be one of: web, academic, news''))
      else if DateRange r \<noteq> [] \<and> DateRange r \<notin> set validDateRanges then
        Some (invalid_request (''invalid date_range '' @ [CHR 0x27] @ DateRange r @ [CHR 0x27]
                @ '', must be one of: day, week, month, year''))
      else if length (Sources r) > MaxSourcesCount then
        Some (invalid_request (''sources count '' @ itoa (int (length (Sources r)))
                @ '' exceeds maximum '' @ itoa (int MaxSourcesCount)))
      else if length (Options r) > MaxOptionsCount then
        Some (invalid_request (''options count '' @ itoa (int (length (Options r)))
                @ '' exceeds maximum '' @ itoa (int MaxOptionsCount)))
      else validate_options (Options r))"


section \<open>The upstream adapter (internal/adapters/perplexity)\<close>

subsection \<open>Request translation (mapper.go)\<close>

text \<open>\<open>strings.Split(s, ",")\<close>: the separator is one ASCII byte.\<close>

fun split_comma :: "string \<Rightarrow> string list" where
  "split_comma [] = [[]]"
| "split_comma (c # cs) =
     (if c = CHR '','' then [] # split_comma cs
      else (case split_comma cs of w # ws \<Rightarrow> (c # w) # ws | [] \<Rightarrow> [[c]]))"

text \<open>\<open>strconv.ParseBool\<close>: \<open>None\<close> is the non-nil error.\<close>

definition ParseBool :: "string \<Rightarrow> bool option" where
  "ParseBool s =
     (if s \<in> set [''1'', ''t'', ''T'', ''TRUE'', ''true'', ''True''] then Some True
      else if s \<in> set [''0'', ''f'', ''F'', ''FALSE'', ''false'', ''False''] then Some False
      else None)"

text \<open>The loop over the comma-separated domains of \<open>search_domain_filter\<close>.\<close>

fun valid_domains :: "golib \<Rightarrow> string list \<Rightarrow> string list" where
  "valid_domains L [] = []"
| "valid_domains L (d # ds) =
     (let d' = TrimSpace L d in
      if length d' = 0 then valid_domains L ds
      else if length d' > 253 then valid_domains L ds
      else if CHR ''/'' \<in> set d' \<or> CHR '' '' \<in> set d' then valid_domains L ds
      else d' # valid_domains L ds)"

definition maxDomainFilterLength :: nat where "maxDomainFilterLength = 3000"

text \<open>
  One iteration of the loop of \<open>processSearchOptions\<close>: \<open>Inl\<close> is the error the
  function returns from inside the loop, \<open>Inr\<close> the request after the iteration.
\<close>

definition option_step :: "golib \<Rightarrow> APIChatRequest \<Rightarrow> string \<Rightarrow> string \<Rightarrow> go_error + APIChatRequest" where
  "option_step L a key val =
     (if length key > MaxOptionKeyLength then Inr a
      else if length val > MaxOptionValueLength then
        Inl (Opaque (''option value for key '' @ [CHR 0x27] @ key @ [CHR 0x27] @ '' is too long: ''
               @ itoa (int (length val)) @ '' > '' @ itoa (int MaxOptionValueLength)))
      else if ToLower L key = ''temperature'' then
        (case ParseFloat L val of
           Some temp \<Rightarrow> if f64_ge temp 0 \<and> f64_le temp 2 then Inr (a\<lparr>req_Temperature := Some temp\<rparr>) else Inr a
         | None \<Rightarrow> Inr a)
      else if ToLower L key = ''top_p'' then
        (case ParseFloat L val of
           Some topP \<Rightarrow> if f64_ge topP 0 \<and> f64_le topP 1 then Inr (a\<lparr>req_TopP := Some topP\<rparr>) else Inr a
         | None \<Rightarrow> Inr a)
      else if ToLower L key = ''disable_search'' then
        (case ParseBool val of
           Some disable \<Rightarrow> Inr (a\<lparr>req_DisableSearch := Some disable\<rparr>)
         | None \<Rightarrow> Inr a)
      else if ToLower L key = ''search_domain_filter'' then
        (if length val > maxDomainFilterLength then
           Inl (Opaque (''search_domain_filter value too long: '' @ itoa (int (length val))
                  @ '' > '' @ itoa (int maxDomainFilterLength)))
         else
           (let validDomains = valid_domains L (split_comma val) in
            if length validDomains > 10 then
              Inl (Opaque (''too many domains in search_domain_filter: ''
                     @ itoa (int (length validDomains)) @ '' > 10''))
            else if length validDomains > 0 then Inr (a\<lparr>req_SearchDomainFilter := validDomains\<rparr>)
            else Inr a))
      else if ToLower L key = ''search_mode'' then
        (if val \<in> set validSearchModes then Inr (a\<lparr>req_SearchMode := val\<rparr>) else Inr a)
      else Inr a)"

text \<open>
  \<open>processSearchOptions\<close> updates the request through a pointer, so the model returns
  the request as the loop left it together with the error, if any.
\<close>

fun processSearchOptions ::
  "golib \<Rightarrow> APIChatRequest \<Rightarrow> (string \<times> string) list \<Rightarrow> APIChatRequest \<times> go_error option" where
  "processSearchOptions L a [] = (a, None)"
| "processSearchOptions L a ((key, val) # rest) =
     (case option_step L a key val of
        Inl e \<Rightarrow> (a, Some e)
      | Inr a' \<Rightarrow> processSearchOptions L a' rest)"

text \<open>
  \<open>SearchRequestToAPI\<close>. The guard \<open>req.Options != nil\<close> is not modelled apart: the
  loop over an empty map does nothing and returns nil.
\<close>

definition SearchRequestToAPI :: "golib \<Rightarrow> SearchRequest \<Rightarrow> go_error + APIChatRequest" where
  "SearchRequestToAPI L req =
     (let apiReq = \<lparr>req_Model = Model req,
                     req_Messages = [\<lparr>msg_Role = ''user'', msg_Content = Query req\<rparr>],
                     req_MaxTokens = None, req_Temperature = None, req_TopP = None,
                     req_Stream = False, req_SearchMode = SearchMode req,
                     req_DisableSearch = None, req_SearchDomainFilter = [],
                     req_ReasoningEffort = []\<rparr>;
          apiReq = (if MaxTokens req > 0 then apiReq\<lparr>req_MaxTokens := Some (MaxTokens req)\<rparr> else apiReq);
          apiReq = (if length (Sources req) > 0 then apiReq\<lparr>req_SearchDomainFilter := Sources req\<rparr> else apiReq)
      in case processSearchOptions L apiReq (Options req) of
           (a, Some e) \<Rightarrow> Inl (Wrap ''failed to process search options: '' e [])
         | (a, None) \<Rightarrow> Inr a)"

subsection \<open>Response translation (mapper.go)\<close>

definition APIResponseToSearchResult :: "APIChatResponse \<Rightarrow> SearchResult" where
  "APIResponseToSearchResult apiResp =
     (let result = \<lparr>res_ID = api_ID apiResp,
                     res_Content = GetContent apiResp,
                     res_Model = api_Model apiResp,
                     res_Usage = \<lparr>PromptTokens = api_PromptTokens (api_Usage apiResp),
                                  CompletionTokens = api_CompletionTokens (api_Usage apiResp),
                                  TotalTokens = api_TotalTokens (api_Usage apiResp)\<rparr>,
                     res_Citations = [],
                     res_Sources = [],
                     res_Created = GetCreatedTime apiResp\<rparr>;
          result = (if length (api_Citations apiResp) > 0 then
                      result\<lparr>res_Citations :=
                        map (\<lambda>citation. \<lparr>Number = api_Number citation,
                                           cit_URL = api_cit_URL citation,
                                           cit_Title = api_cit_Title citation\<rparr>)
                            (api_Citations apiResp)\<rparr>
                    else result);
          result = (if length (api_Sources apiResp) > 0 then
                      result\<lparr>res_Sources :=
                        map (\<lambda>source. \<lparr>src_URL = api_src_URL source,
                                         src_Title = api_src_Title source,
                                         Snippet = api_Snippet source\<rparr>)
                            (api_Sources apiResp)\<rparr>
                    else result)
      in result)"


subsection \<open>The HTTP client (client.go)\<close>

definition BaseURL :: string where "BaseURL = ''https://api.perplexity.ai''"
definition ChatCompletionsEndpoint :: string where "ChatCompletionsEndpoint = ''/chat/completions''"
definition DefaultModel :: string where "DefaultModel = ''sonar''"
definition MaxResponseSize :: nat where "MaxResponseSize = 10 * 1024 * 1024"

text \<open>
  The request handed to \<open>HTTPClient.Do\<close>. Its body is the JSON encoding of an
  \<open>APIChatRequest\<close>; the model keeps the encoded value itself. (\<open>json.Marshal\<close> of
  that struct has no failing case: its fields are strings, an integer, booleans and
  floats that passed a range check, so the branch for a marshalling error is not
  modelled.)
\<close>

record HTTPRequest =
  http_Method :: string
  http_URL :: string
  http_Header :: "(string \<times> string) list"
  http_Body :: APIChatRequest

text \<open>
  The response: the status code and the body. The body is an \<open>io.Reader\<close>; it is
  modelled by the results of its successive \<open>Read\<close> calls, each the bytes the call
  returns and the error other than end of file that it returns with them, if any. After
  the last listed call the stream reports end of file.
\<close>

record HTTPResponse =
  StatusCode :: int
  BodyReads :: "(string \<times> string option) list"

text \<open>
  What \<open>Do\<close> returns: an error, with the flag \<open>ctx.Err() == context.DeadlineExceeded\<close>
  observed after it and its text, or a response.
\<close>

datatype DoResult = DoFailed bool string | DoResponse HTTPResponse

record Client =
  httpClient :: "HTTPRequest \<Rightarrow> DoResult"
  baseURL :: string
  apiKey :: string

text \<open>
  \<open>io.ReadAll(io.LimitReader(body, n))\<close>, as the bytes read and the error returned.
  \<open>ReadAll\<close> calls \<open>Read\<close> until a call returns an error; end of file is a clean
  end, and any other error is returned together with the bytes read so far, also when it
  comes with the bytes that complete the limit. The limited reader hands the stream a
  buffer of at most the bytes that remain of \<open>n\<close>, so that no call returns more, and
  once \<open>n\<close> bytes have been read it reports end of file without calling the stream
  again.
\<close>

fun read_limited :: "nat \<Rightarrow> (string \<times> string option) list \<Rightarrow> string \<times> string option" where
  "read_limited n [] = ([], None)"
| "read_limited n ((chunk, Some e) # rest) =
     (if n = 0 then ([], None) else (take n chunk, Some e))"
| "read_limited n ((chunk, None) # rest) =
     (if n = 0 then ([], None)
      else (take n chunk @ fst (read_limited (n - length (take n chunk)) rest),
            snd (read_limited (n - length (take n chunk)) rest)))"

definition mapAPIError :: "int \<Rightarrow> string \<Rightarrow> go_error" where
  "mapAPIError statusCode message =
     (if statusCode = 400 then Wrap [] (Sentinel ErrInvalidRequest) ('': '' @ message)
      else if statusCode = 401 then Wrap [] (Sentinel ErrAPIKeyMissing) ('': '' @ message)
      else if statusCode = 429 then Wrap [] (Sentinel ErrRateLimited) ('': '' @ message)
      else if statusCode = 500 \<or> statusCode = 502 \<or> statusCode = 503 then
        Wrap [] (Sentinel ErrAPIError) ('': '' @ message)
      else Wrap [] (Sentinel ErrAPIError) ('': HTTP '' @ itoa statusCode @ '': '' @ message))"

definition mapStatusCodeError :: "int \<Rightarrow> string \<Rightarrow> go_error" where
  "mapStatusCodeError statusCode body =
     (if statusCode = 400 then Wrap [] (Sentinel ErrInvalidRequest) '': bad request''
      else if statusCode = 401 then Wrap [] (Sentinel ErrAPIKeyMissing) '': unauthorized''
      else if statusCode = 429 then Wrap [] (Sentinel ErrRateLimited) '': rate limited''
      else if statusCode = 500 \<or> statusCode = 502 \<or> statusCode = 503 then
        Wrap [] (Sentinel ErrAPIError) ('': server error (HTTP '' @ itoa statusCode @ '')'')
      else Wrap [] (Sentinel ErrAPIError) ('': HTTP '' @ itoa statusCode))"

definition handleErrorResponse :: "golib \<Rightarrow> int \<Rightarrow> string \<Rightarrow> go_error" where
  "handleErrorResponse L statusCode body =
     (case UnmarshalAPIError L body of
        Some message \<Rightarrow> mapAPIError statusCode message
      | None \<Rightarrow> mapStatusCodeError statusCode body)"

text \<open>
  \<open>makeRequest\<close> and \<open>Search\<close> return, next to their result, the list of requests
  they passed to \<open>Do\<close>, in order: the upstream calls they issued.
\<close>

definition makeRequest ::
  "golib \<Rightarrow> Client \<Rightarrow> APIChatRequest \<Rightarrow> HTTPRequest list \<times> (go_error + APIChatResponse)" where
  "makeRequest L c apiReq =
     (let url = baseURL c @ ChatCompletionsEndpoint in
      case NewRequestErr L url of
        Some m \<Rightarrow>
          ([], Inl (Wrap [] (Sentinel ErrNetworkError) ('': failed to create request: '' @ m)))
      | None \<Rightarrow>
          (let httpReq = \<lparr>http_Method = ''POST'', http_URL = url,
                           http_Header = [(''Content-Type'', ''application/json''),
                                          (''Authorization'', ''Bearer '' @ apiKey c)],
                           http_Body = apiReq\<rparr>
           in ([httpReq],
               case httpClient c httpReq of
                 DoFailed deadlineExceeded m \<Rightarrow>
                   (if deadlineExceeded then
                      Inl (Wrap [] (Sentinel ErrTimeout) '': request timed out'')
                    else Inl (Wrap [] (Sentinel ErrNetworkError) ('': request failed: '' @ m)))
               | DoResponse resp \<Rightarrow>
                   (case read_limited MaxResponseSize (BodyReads resp) of
                      (respBody, Some m) \<Rightarrow>
                        Inl (Wrap [] (Sentinel ErrNetworkError) ('': failed to read response: '' @ m))
                    | (respBody, None) \<Rightarrow>
                        (if length respBody = MaxResponseSize then
                           Inl (Wrap [] (Sentinel ErrAPIError)
                                  ('': response too large (exceeded '' @ itoa (int MaxResponseSize)
                                   @ '' bytes)''))
                         else if StatusCode resp \<noteq> 200 then
                           Inl (handleErrorResponse L (StatusCode resp) respBody)
                         else
                           (case UnmarshalChatResponse L respBody of
                              Inl m \<Rightarrow>
                                Inl (Wrap [] (Sentinel ErrAPIError) ('': failed to parse response: '' @ m))
                            | Inr apiResp \<Rightarrow> Inr apiResp))))))"

definition Search ::
  "golib \<Rightarrow> Client \<Rightarrow> SearchRequest \<Rightarrow> HTTPRequest list \<times> (go_error + SearchResult)" where
  "Search L c request =
     (case Validate L request of
        Some err \<Rightarrow> ([], Inl (Wrap [] (Sentinel ErrInvalidRequest) ('': '' @ error_text err)))
      | None \<Rightarrow>
          (let request = (if Model request = [] then request\<lparr>Model := DefaultModel\<rparr> else request) in
           case SearchRequestToAPI L request of
             Inl err \<Rightarrow> ([], Inl (Wrap ''failed to convert search request: '' err []))
           | Inr apiReq \<Rightarrow>
               (case makeRequest L c apiReq of
                  (calls, Inl err) \<Rightarrow> (calls, Inl err)
                | (calls, Inr apiResp) \<Rightarrow> (calls, Inr (APIResponseToSearchResult apiResp)))))"


section \<open>The tool registry (internal/adapters/mcp/server.go)\<close>

text \<open>
  A Go value of type \<open>any\<close> that holds JSON data: a request id, request parameters, tool
  arguments, metadata, a schema. \<open>AnyNil\<close> is the nil interface value.
\<close>

datatype go_any =
    AnyNil
  | AnyBool bool
  | AnyNumber rat
  | AnyString string
  | AnyArray "go_any list"
  | AnyObject "(string \<times> go_any) list"

text \<open>A \<open>map[string]any\<close> is the list of its entries; nil and empty are the empty list.\<close>

record ToolInfo =
  ti_Name :: string
  ti_Description :: string
  ti_InputSchema :: "(string \<times> go_any) list"

record ToolResult =
  tr_Content :: string
  tr_IsError :: bool
  tr_Metadata :: "(string \<times> go_any) list"
  tr_Citations :: "Citation list"

text \<open>
  The interface \<open>domain.Tool\<close>: a value with its four methods. \<open>Execute\<close> returns
  either a non-nil error or a result; the server discards the result that comes with an
  error and dereferences the result that comes without one, so a tool that returns
  neither is outside the model. A nil \<open>domain.Tool\<close> is \<open>None\<close>.
\<close>

record Tool =
  tool_Name :: string
  tool_Description :: string
  tool_InputSchema :: "(string \<times> go_any) list"
  tool_Execute :: "(string \<times> go_any) list \<Rightarrow> go_error + ToolResult"

text \<open>
  The server's state is its map from names to tools, kept as an association list;
  \<open>s.tools[name] = tool\<close> is \<^const>\<open>AList.update\<close> and a lookup is \<^const>\<open>map_of\<close>.
  The order of the list stands for the order in which a \<open>range\<close> loop visits the map,
  which Go leaves unspecified. The lock, the context deadline and the calls to the
  logger are not modelled.
\<close>

record Server =
  tools :: "(string \<times> Tool) list"

definition RegisterTool :: "Server \<Rightarrow> string \<Rightarrow> Tool option \<Rightarrow> Server \<times> go_error option" where
  "RegisterTool s name tool =
     (if name = [] then
        (s, Some (Wrap [] (Sentinel ErrInvalidRequest) '': tool name cannot be empty''))
      else case tool of
        None \<Rightarrow> (s, Some (Wrap [] (Sentinel ErrInvalidRequest) '': tool cannot be nil''))
      | Some t \<Rightarrow>
          (if tool_Name t \<noteq> name then
             (s, Some (Wrap [] (Sentinel ErrInvalidRequest)
                         ('': tool name mismatch: registered as '' @ [CHR 0x27] @ name @ [CHR 0x27]
                          @ '' but tool reports name '' @ [CHR 0x27] @ tool_Name t @ [CHR 0x27])))
           else (s\<lparr>tools := AList.update name t (tools s)\<rparr>, None)))"

definition ExecuteTool ::
  "Server \<Rightarrow> string \<Rightarrow> (string \<times> go_any) list \<Rightarrow> ToolResult option \<times> go_error option" where
  "ExecuteTool s name args =
     (case map_of (tools s) name of
        None \<Rightarrow>
          (Some \<lparr>tr_Content = ''Tool '' @ [CHR 0x27] @ name @ [CHR 0x27] @ '' not found'',
                 tr_IsError = True, tr_Metadata = [], tr_Citations = []\<rparr>,
           Some (Wrap [] (Sentinel ErrToolNotFound)
                   ('': tool '' @ [CHR 0x27] @ name @ [CHR 0x27] @ '' not found'')))
      | Some tool \<Rightarrow>
          (case tool_Execute tool args of
             Inl err \<Rightarrow>
               (Some \<lparr>tr_Content = ''Tool execution failed: '' @ error_text err,
                      tr_IsError = True,
                      tr_Metadata = [(''tool_name'', AnyString name),
                                     (''error_type'', AnyString ''execution_error'')],
                      tr_Citations = []\<rparr>,
                Some (Wrap [] (Sentinel ErrToolExecution) ('': '' @ error_text err)))
           | Inr result \<Rightarrow> (Some result, None)))"

definition ListTools :: "Server \<Rightarrow> ToolInfo list \<times> go_error option" where
  "ListTools s =
     (map (\<lambda>(name, tool). \<lparr>ti_Name = tool_Name tool,
                            ti_Description = tool_Description tool,
                            ti_InputSchema = tool_InputSchema tool\<rparr>) (tools s),
      None)"

section \<open>The protocol handler\<close>

record MCPRequest =
  JSONRPC :: string
  ID :: go_any
  Method :: string
  Params :: go_any

record MCPError =
  Code :: int
  Message :: string
  Data :: "string option"

record ToolCallParams =
  tcp_Name :: string
  tcp_Arguments :: "(string \<times> go_any) list"

record ToolListResult =
  Tools :: "ToolInfo list"

record ToolCallResult =
  tc_Content :: string
  tc_IsError :: bool
  tc_Metadata :: "(string \<times> go_any) list"
  tc_Citations :: "Citation list"

text \<open>The two values the handler stores in the \<open>Result\<close> field of a response.\<close>

datatype mcp_result = ListResult ToolListResult | CallResult ToolCallResult

record MCPResponse =
  resp_JSONRPC :: string
  resp_ID :: go_any
  resp_Result :: "mcp_result option"
  resp_Error :: "MCPError option"

definition MCPErrorParseError :: int where "MCPErrorParseError = -32700"
definition MCPErrorInvalidRequest :: int where "MCPErrorInvalidRequest = -32600"
definition MCPErrorMethodNotFound :: int where "MCPErrorMethodNotFound = -32601"
definition MCPErrorInvalidParams :: int where "MCPErrorInvalidParams = -32602"
definition MCPErrorInternalError :: int where "MCPErrorInternalError = -32603"
definition MCPErrorServerError :: int where "MCPErrorServerError = -32000"

text \<open>
  The bytes the handler returns are either the JSON encoding of a response, kept as the
  response itself, or a string literal of the source.
\<close>

datatype wire = Encoded MCPResponse | Literal string

text \<open>
  The JSON library, as far as the handler uses it. \<open>UnmarshalRequest\<close> decodes the raw
  bytes to a request or returns the text of the decoding error.
  \<open>MarshalParamsErr\<close> is the error text of \<open>json.Marshal(params)\<close>, if any, and
  \<open>UnmarshalToolCallParams\<close> decodes the re-encoded parameters. \<open>MarshalResultErr\<close>
  is the error text of encoding a result value, if any: results carry metadata of type
  \<open>any\<close> that a tool produced. The other fields of a response are a string literal, an
  id that was decoded from JSON, and an \<open>MCPError\<close> of an integer and strings, whose
  encoding has no failing case.
\<close>

record mcplib =
  UnmarshalRequest :: "string \<Rightarrow> string + MCPRequest"
  MarshalParamsErr :: "go_any \<Rightarrow> string option"
  UnmarshalToolCallParams :: "go_any \<Rightarrow> string + ToolCallParams"
  MarshalResultErr :: "mcp_result \<Rightarrow> string option"

definition json_Marshal :: "mcplib \<Rightarrow> MCPResponse \<Rightarrow> string + wire" where
  "json_Marshal L response =
     (case resp_Result response of
        None \<Rightarrow> Inr (Encoded response)
      | Some r \<Rightarrow> (case MarshalResultErr L r of Some m \<Rightarrow> Inl m | None \<Rightarrow> Inr (Encoded response)))"

definition fallbackResponse :: string where
  "fallbackResponse =
     ''{'' @ [CHR 0x22] @ ''jsonrpc'' @ [CHR 0x22] @ '':'' @ [CHR 0x22] @ ''2.0'' @ [CHR 0x22]
     @ '','' @ [CHR 0x22] @ ''error'' @ [CHR 0x22] @ '':{'' @ [CHR 0x22] @ ''code'' @ [CHR 0x22]
     @ '':-32603,'' @ [CHR 0x22] @ ''message'' @ [CHR 0x22] @ '':'' @ [CHR 0x22]
     @ ''Internal error'' @ [CHR 0x22] @ ''}}''"

definition createErrorResponse ::
  "mcplib \<Rightarrow> go_any \<Rightarrow> int \<Rightarrow> string \<Rightarrow> go_error option \<Rightarrow> wire \<times> go_error option" where
  "createErrorResponse L reqid code message data =
     (let mcpError = \<lparr>Code = code, Message = message, Data = None\<rparr>;
          mcpError = (case data of Some d \<Rightarrow> mcpError\<lparr>Data := Some (error_text d)\<rparr> | None \<Rightarrow> mcpError);
          response = \<lparr>resp_JSONRPC = ''2.0'', resp_ID = reqid, resp_Result = None,
                       resp_Error = Some mcpError\<rparr>
      in case json_Marshal L response of
           Inl m \<Rightarrow> (Literal fallbackResponse, Some (Opaque m))
         | Inr responseData \<Rightarrow> (responseData, None))"

definition handleToolsList :: "Server \<Rightarrow> go_any \<Rightarrow> go_error + mcp_result" where
  "handleToolsList s params =
     (case ListTools s of
        (tls, Some err) \<Rightarrow> Inl (Wrap ''failed to list tools: '' err [])
      | (tls, None) \<Rightarrow> Inr (ListResult \<lparr>Tools = tls\<rparr>))"

text \<open>
  A handler either returns or panics: \<open>handleToolCall\<close> dereferences the result of
  \<open>ExecuteTool\<close> whenever the error is nil.
\<close>

datatype 'a outcome = Panics | Returns 'a

definition handleToolCall :: "mcplib \<Rightarrow> Server \<Rightarrow> go_any \<Rightarrow> (go_error + mcp_result) outcome" where
  "handleToolCall L s params =
     (case MarshalParamsErr L params of
        Some m \<Rightarrow> Returns (Inl (Wrap ''failed to marshal params: '' (Opaque m) []))
      | None \<Rightarrow>
          (case UnmarshalToolCallParams L params of
             Inl m \<Rightarrow> Returns (Inl (Wrap ''invalid tool call parameters: '' (Opaque m) []))
           | Inr toolParams \<Rightarrow>
               (if tcp_Name toolParams = [] then
                  Returns (Inl (Wrap [] (Sentinel ErrInvalidRequest) '': tool name is required''))
                else
                  (case ExecuteTool s (tcp_Name toolParams) (tcp_Arguments toolParams) of
                     (toolResult, Some err) \<Rightarrow>
                       (if err = Sentinel ErrToolNotFound then
                          Returns (Inl (Opaque (''tool not found: '' @ tcp_Name toolParams)))
                        else Returns (Inl (Wrap ''tool execution failed: '' err [])))
                   | (None, None) \<Rightarrow> Panics
                   | (Some toolResult, None) \<Rightarrow>
                       Returns (Inr (CallResult \<lparr>tc_Content = tr_Content toolResult,
                                                 tc_IsError = tr_IsError toolResult,
                                                 tc_Metadata = tr_Metadata toolResult,
                                                 tc_Citations = tr_Citations toolResult\<rparr>))))))"

text \<open>The part of \<open>HandleRequest\<close> after the \<open>switch\<close> on the method.\<close>

definition respond ::
  "mcplib \<Rightarrow> MCPRequest \<Rightarrow> go_error + mcp_result \<Rightarrow> wire \<times> go_error option" where
  "respond L request r =
     (case r of
        Inl err \<Rightarrow> createErrorResponse L (ID request) MCPErrorServerError ''Server error'' (Some err)
      | Inr result \<Rightarrow>
          (let response = \<lparr>resp_JSONRPC = ''2.0'', resp_ID = ID request,
                            resp_Result = Some result, resp_Error = None\<rparr>
           in case json_Marshal L response of
                Inl m \<Rightarrow>
                  createErrorResponse L (ID request) MCPErrorInternalError ''Internal error''
                    (Some (Opaque m))
              | Inr responseData \<Rightarrow> (responseData, None)))"

definition HandleRequest ::
  "mcplib \<Rightarrow> Server \<Rightarrow> string \<Rightarrow> (wire \<times> go_error option) outcome" where
  "HandleRequest L s requestData =
     (case UnmarshalRequest L requestData of
        Inl m \<Rightarrow>
          Returns (createErrorResponse L AnyNil MCPErrorParseError ''Parse error'' (Some (Opaque m)))
      | Inr request \<Rightarrow>
          (if JSONRPC request \<noteq> ''2.0'' then
             Returns (createErrorResponse L (ID request) MCPErrorInvalidRequest
                        ''Invalid JSONRPC version'' None)
           else if Method request = ''tools/list'' then
             Returns (respond L request (handleToolsList s (Params request)))
           else if Method request = ''tools/call'' then
             (case handleToolCall L s (Params request) of
                Panics \<Rightarrow> Panics
              | Returns r \<Rightarrow> Returns (respond L request r))
           else
             Returns (createErrorResponse L (ID request) MCPErrorMethodNotFound
                        (''Method not found: '' @ Method request) None)))"


section \<open>Values for evaluating the model\<close>

text \<open>
  A library for running the model on concrete inputs. Its \<open>TrimSpace\<close> and
  \<open>ToLower\<close> are the Go functions restricted to ASCII, where they trim the six ASCII
  space characters and map \<open>A\<close> to \<open>Z\<close> to lower case; its \<open>ParseFloat\<close> knows
  the decimal numerals listed, each of which a \<open>float64\<close> represents exactly; a
  request can always be built, and no body decodes (the example bodies are not JSON).
\<close>

definition asciiSpace :: "char \<Rightarrow> bool" where
  "asciiSpace c = (c \<in> set [CHR 0x09, CHR 0x0A, CHR 0x0B, CHR 0x0C, CHR 0x0D, CHR '' ''])"

definition ascii_TrimSpace :: "string \<Rightarrow> string" where
  "ascii_TrimSpace s = rev (dropWhile asciiSpace (rev (dropWhile asciiSpace s)))"

definition ascii_lower :: "char \<Rightarrow> char" where
  "ascii_lower c =
     (case map_of (zip ''ABCDEFGHIJKLMNOPQRSTUVWXYZ'' ''abcdefghijklmnopqrstuvwxyz'') c of
        Some l \<Rightarrow> l | None \<Rightarrow> c)"

definition ascii_ToLower :: "string \<Rightarrow> string" where
  "ascii_ToLower s = map ascii_lower s"

definition decimal_examples :: "string \<Rightarrow> float64 option" where
  "decimal_examples s =
     (if s = ''0.5'' then Some (Finite (1 / 2))
      else if s = ''1.0'' then Some (Finite 1)
      else if s = ''3.0'' then Some (Finite 3)
      else if s = ''-0.5'' then Some (Finite (- (1 / 2)))
      else if s = ''1.5'' then Some (Finite (3 / 2))
      else None)"

definition lib0 :: golib where
  "lib0 = \<lparr>TrimSpace = ascii_TrimSpace, ToLower = ascii_ToLower, ParseFloat = decimal_examples,
           NewRequestErr = (\<lambda>url. None), UnmarshalAPIError = (\<lambda>body. None),
           UnmarshalChatResponse = (\<lambda>body. Inl ''invalid character'')\<rparr>"

text \<open>A tool that returns its description, and a server that has one registered.\<close>

definition echo_tool :: "string \<Rightarrow> string \<Rightarrow> Tool" where
  "echo_tool name descr =
     \<lparr>tool_Name = name, tool_Description = descr, tool_InputSchema = [],
      tool_Execute = (\<lambda>args. Inr \<lparr>tr_Content = descr, tr_IsError = False,
                                    tr_Metadata = [], tr_Citations = []\<rparr>)\<rparr>"

definition srv0 :: Server where
  "srv0 = \<lparr>tools = [(''perplexity_search'', echo_tool ''perplexity_search'' ''first'')]\<rparr>"

section \<open>Notions used in the statements\<close>

text \<open>The entry \<open>ListTools\<close> produces for a tool.\<close>

definition tool_info :: "Tool \<Rightarrow> ToolInfo" where
  "tool_info t = \<lparr>ti_Name = tool_Name t, ti_Description = tool_Description t,
                   ti_InputSchema = tool_InputSchema t\<rparr>"

text \<open>
  The sentinel the specification assigns to an upstream status code. Its \<open>AuthError\<close>
  is the sentinel \<open>ErrAPIKeyMissing\<close>, the only authentication error of package
  \<open>domain\<close>.
\<close>

definition status_sentinel :: "int \<Rightarrow> sentinel" where
  "status_sentinel statusCode =
     (if statusCode = 400 then ErrInvalidRequest
      else if statusCode = 401 then ErrAPIKeyMissing
      else if statusCode = 429 then ErrRateLimited
      else ErrAPIError)"

text \<open>Example requests, a wire request and a client whose transport refuses to connect.\<close>

definition req_ok :: SearchRequest where
  "req_ok = \<lparr>Query = ''What is quantum computing?'', Model = ''sonar'', SearchMode = [],
             MaxTokens = 0, DateRange = [], Sources = [], Options = []\<rparr>"

definition api0 :: APIChatRequest where
  "api0 = \<lparr>req_Model = ''sonar'',
           req_Messages = [\<lparr>msg_Role = ''user'', msg_Content = ''What is quantum computing?''\<rparr>],
           req_MaxTokens = None, req_Temperature = None, req_TopP = None, req_Stream = False,
           req_SearchMode = [], req_DisableSearch = None, req_SearchDomainFilter = [],
           req_ReasoningEffort = []\<rparr>"

definition client0 :: Client where
  "client0 = \<lparr>httpClient = (\<lambda>h. DoFailed False ''connection refused''),
              baseURL = BaseURL, apiKey = ''key''\<rparr>"

definition eleven_domains :: string where
  "eleven_domains = ''a,b,c,d,e,f,g,h,i,j,k''"

text \<open>
  An option that fails its own bound: its key is too long, or its value is within the
  length bound and is a temperature or top_p that does not parse to a number in range, a
  \<open>disable_search\<close> that does not parse to a boolean, or a \<open>search_mode\<close> that is
  not one of the three modes.
\<close>

definition fails_own_bound :: "golib \<Rightarrow> string \<Rightarrow> string \<Rightarrow> bool" where
  "fails_own_bound L key val =
     (length key > MaxOptionKeyLength
      \<or> (length val \<le> MaxOptionValueLength \<and>
          ((ToLower L key = ''temperature'' \<and>
              (case ParseFloat L val of None \<Rightarrow> True | Some t \<Rightarrow> \<not> (f64_ge t 0 \<and> f64_le t 2)))
           \<or> (ToLower L key = ''top_p'' \<and>
              (case ParseFloat L val of None \<Rightarrow> True | Some t \<Rightarrow> \<not> (f64_ge t 0 \<and> f64_le t 1)))
           \<or> (ToLower L key = ''disable_search'' \<and> ParseBool val = None)
           \<or> (ToLower L key = ''search_mode'' \<and> val \<notin> set validSearchModes))))"

text \<open>A domain of \<open>search_domain_filter\<close> that is too long or malformed once trimmed.\<close>

definition bad_domain :: "golib \<Rightarrow> string \<Rightarrow> bool" where
  "bad_domain L d =
     (length (TrimSpace L d) > 253 \<or> CHR ''/'' \<in> set (TrimSpace L d) \<or> CHR '' '' \<in> set (TrimSpace L d))"

text \<open>
  An option that fails the whole request: its key is within the length bound, and its
  value is too long or it is a \<open>search_domain_filter\<close> that lists more than ten valid
  domains.
\<close>

definition fails_request :: "golib \<Rightarrow> string \<Rightarrow> string \<Rightarrow> bool" where
  "fails_request L key val =
     (length key \<le> MaxOptionKeyLength
      \<and> (length val > MaxOptionValueLength
         \<or> (ToLower L key = ''search_domain_filter''
             \<and> length (valid_domains L (split_comma val)) > 10)))"

text \<open>The request that \<open>makeRequest\<close> builds for a wire request.\<close>

definition upstream_request :: "Client \<Rightarrow> APIChatRequest \<Rightarrow> HTTPRequest" where
  "upstream_request c apiReq =
     \<lparr>http_Method = ''POST'', http_URL = baseURL c @ ChatCompletionsEndpoint,
      http_Header = [(''Content-Type'', ''application/json''),
                     (''Authorization'', ''Bearer '' @ apiKey c)],
      http_Body = apiReq\<rparr>"

text \<open>The error of \<open>makeRequest\<close> for a body that reached the size cap.\<close>

definition response_too_large :: go_error where
  "response_too_large =
     Wrap [] (Sentinel ErrAPIError)
       ('': response too large (exceeded '' @ itoa (int MaxResponseSize) @ '' bytes)'')"

text \<open>The error of \<open>makeRequest\<close> for a read of the body that returned an error.\<close>

definition read_failed :: "string \<Rightarrow> go_error" where
  "read_failed m = Wrap [] (Sentinel ErrNetworkError) ('': failed to read response: '' @ m)"

text \<open>What \<open>makeRequest\<close> does with a body it has read without error and under the cap.\<close>

definition after_read :: "golib \<Rightarrow> int \<Rightarrow> string \<Rightarrow> go_error + APIChatResponse" where
  "after_read L statusCode respBody =
     (if statusCode \<noteq> 200 then Inl (handleErrorResponse L statusCode respBody)
      else (case UnmarshalChatResponse L respBody of
              Inl m \<Rightarrow> Inl (Wrap [] (Sentinel ErrAPIError) ('': failed to parse response: '' @ m))
            | Inr apiResp \<Rightarrow> Inr apiResp))"

text \<open>
  A client whose transport answers 200 with a body of \<open>n\<close> bytes delivered by one
  \<open>Read\<close> and a clean end of file, and one whose single \<open>Read\<close> returns the
  \<open>n\<close> bytes together with an error.
\<close>

definition client_body :: "nat \<Rightarrow> Client" where
  "client_body n =
     \<lparr>httpClient = (\<lambda>h. DoResponse \<lparr>StatusCode = 200,
                                      BodyReads = [(replicate n CHR ''x'', None)]\<rparr>),
      baseURL = BaseURL, apiKey = ''key''\<rparr>"

definition client_broken :: "nat \<Rightarrow> Client" where
  "client_broken n =
     \<lparr>httpClient = (\<lambda>h. DoResponse \<lparr>StatusCode = 200,
                                      BodyReads = [(replicate n CHR ''x'', Some ''connection reset'')]\<rparr>),
      baseURL = BaseURL, apiKey = ''key''\<rparr>"

text \<open>A request that passes validation and names eleven domains in one option.\<close>

definition req_many_domains :: SearchRequest where
  "req_many_domains =
     req_ok\<lparr>Model := [], Options := [(''search_domain_filter'', eleven_domains)]\<rparr>"

text \<open>A client whose transport answers 404 with a short unstructured body.\<close>

definition client_not_found :: Client where
  "client_not_found =
     \<lparr>httpClient = (\<lambda>h. DoResponse \<lparr>StatusCode = 404,
                                      BodyReads = [(''not found'', None)]\<rparr>),
      baseURL = BaseURL, apiKey = ''key''\<rparr>"

text \<open>The error response that \<open>createErrorResponse\<close> encodes.\<close>

definition error_response :: "go_any \<Rightarrow> int \<Rightarrow> string \<Rightarrow> string option \<Rightarrow> MCPResponse" where
  "error_response reqid code message data =
     \<lparr>resp_JSONRPC = ''2.0'', resp_ID = reqid, resp_Result = None,
      resp_Error = Some \<lparr>Code = code, Message = message, Data = data\<rparr>\<rparr>"

text \<open>
  Three raw inputs and a JSON library that decodes them: a request of version 1.0, a
  request for a method the handler does not know, and bytes that are not JSON.
\<close>

definition raw_version_1 :: string where
  "raw_version_1 =
     ''{'' @ [CHR 0x22] @ ''jsonrpc'' @ [CHR 0x22] @ '':'' @ [CHR 0x22] @ ''1.0'' @ [CHR 0x22]
     @ '','' @ [CHR 0x22] @ ''method'' @ [CHR 0x22] @ '':'' @ [CHR 0x22] @ ''tools/list''
     @ [CHR 0x22] @ ''}''"

definition raw_unknown_method :: string where
  "raw_unknown_method =
     ''{'' @ [CHR 0x22] @ ''jsonrpc'' @ [CHR 0x22] @ '':'' @ [CHR 0x22] @ ''2.0'' @ [CHR 0x22]
     @ '','' @ [CHR 0x22] @ ''id'' @ [CHR 0x22] @ '':7,'' @ [CHR 0x22] @ ''method'' @ [CHR 0x22]
     @ '':'' @ [CHR 0x22] @ ''resources/list'' @ [CHR 0x22] @ ''}''"

definition mcplib0 :: mcplib where
  "mcplib0 =
     \<lparr>UnmarshalRequest =
        (\<lambda>raw. if raw = raw_version_1 then
                  Inr \<lparr>JSONRPC = ''1.0'', ID = AnyNil, Method = ''tools/list'', Params = AnyNil\<rparr>
                else if raw = raw_unknown_method then
                  Inr \<lparr>JSONRPC = ''2.0'', ID = AnyNumber 7, Method = ''resources/list'',
                       Params = AnyNil\<rparr>
                else Inl ''invalid character'' ),
      MarshalParamsErr = (\<lambda>params. None),
      UnmarshalToolCallParams = (\<lambda>params. Inr \<lparr>tcp_Name = [], tcp_Arguments = []\<rparr>),
      MarshalResultErr = (\<lambda>r. None)\<rparr>"

section \<open>The response mapper: copied fields\<close>

text \<open>
  Claim C7. For every upstream response, \<open>APIResponseToSearchResult\<close> returns a result
  whose content is the message content of the first choice, and the empty string when
  there is no choice; whose three usage counts are the upstream counts; and whose
  citations and sources are the upstream lists copied element by element in the same
  order, so that an absent or empty upstream list gives an empty list.
\<close>

theorem APIResponseToSearchResult_copies:
  "res_Content (APIResponseToSearchResult r) =
     (case api_Choices r of [] \<Rightarrow> [] | c # rest \<Rightarrow> msg_Content (choice_Message c))
   \<and> PromptTokens (res_Usage (APIResponseToSearchResult r)) = api_PromptTokens (api_Usage r)
   \<and> CompletionTokens (res_Usage (APIResponseToSearchResult r)) = api_CompletionTokens (api_Usage r)
   \<and> TotalTokens (res_Usage (APIResponseToSearchResult r)) = api_TotalTokens (api_Usage r)
   \<and> res_Citations (APIResponseToSearchResult r) =
       map (\<lambda>c. \<lparr>Number = api_Number c, cit_URL = api_cit_URL c, cit_Title = api_cit_Title c\<rparr>)
         (api_Citations r)
   \<and> res_Sources (APIResponseToSearchResult r) =
       map (\<lambda>s. \<lparr>src_URL = api_src_URL s, src_Title = api_src_Title s, Snippet = api_Snippet s\<rparr>)
         (api_Sources r)"
  by (simp add: APIResponseToSearchResult_def GetContent_def Let_def split: list.splits)

section \<open>Registration, execution and listing\<close>

text \<open>
  Claim C3. For every server state and every name that is not registered in it,
  \<open>ExecuteTool\<close> returns, for any arguments, both a non-nil result whose \<open>IsError\<close>
  field is true and a non-nil error that wraps \<open>ErrToolNotFound\<close>.
\<close>

theorem ExecuteTool_unregistered:
  assumes "map_of (tools s) name = None"
  shows "\<exists>r e. ExecuteTool s name args = (Some r, Some e)
           \<and> tr_IsError r \<and> errors_Is e ErrToolNotFound"
  using assms by (simp add: ExecuteTool_def)

theorem ExecuteTool_unregistered_witness:
  "map_of (tools srv0) ''nope'' = None
   \<and> (\<exists>r e. ExecuteTool srv0 ''nope'' [(''query'', AnyString ''x'')] = (Some r, Some e)
          \<and> tr_IsError r \<and> errors_Is e ErrToolNotFound)"
proof -
  have h: "map_of (tools srv0) ''nope'' = None"
    by (simp add: srv0_def)
  show ?thesis using h ExecuteTool_unregistered [OF h] by blast
qed

lemma set_update_distinct:
  "distinct (map fst al) \<Longrightarrow>
   set (AList.update k v al) = insert (k, v) {p \<in> set al. fst p \<noteq> k}"
  by (induction al) (auto simp: rev_image_eqI)

lemma length_update_present:
  "k \<in> fst ` set al \<Longrightarrow> length (AList.update k v al) = length al"
  by (induction al) auto

text \<open>
  Claim C9. \<open>RegisterTool\<close> returns an error that wraps \<open>ErrInvalidRequest\<close> when the
  name is empty, when the tool is nil, and when the tool reports a name other than the
  registration key. Otherwise it returns nil, whether or not the name was registered
  before: the map then binds the name to the new tool, and \<open>ListTools\<close> lists the new
  tool together with the tools registered under other names and nothing else; when the
  name was registered before, the listing keeps its length, so the new entry has taken
  the place of the old one. (A Go map holds each key once: the keys of the association
  list are distinct, and registration keeps them so.)
\<close>

theorem RegisterTool_rejects_and_replaces:
  "(name = [] \<or> tool = None \<or> (\<exists>t. tool = Some t \<and> tool_Name t \<noteq> name)
      \<longrightarrow> (\<exists>e. RegisterTool s name tool = (s, Some e) \<and> errors_Is e ErrInvalidRequest))
   \<and> (name \<noteq> [] \<and> tool_Name t = name \<and> distinct (map fst (tools s))
      \<longrightarrow> (\<exists>s'. RegisterTool s name (Some t) = (s', None)
             \<and> map_of (tools s') name = Some t
             \<and> distinct (map fst (tools s'))
             \<and> set (fst (ListTools s')) =
                 insert (tool_info t) (tool_info ` {u. \<exists>k. (k, u) \<in> set (tools s) \<and> k \<noteq> name})
             \<and> (name \<in> fst ` set (tools s) \<longrightarrow> length (fst (ListTools s')) = length (fst (ListTools s)))))"
proof (intro conjI impI)
  assume "name = [] \<or> tool = None \<or> (\<exists>t. tool = Some t \<and> tool_Name t \<noteq> name)"
  then show "\<exists>e. RegisterTool s name tool = (s, Some e) \<and> errors_Is e ErrInvalidRequest"
    by (auto simp: RegisterTool_def split: option.splits)
next
  assume a: "name \<noteq> [] \<and> tool_Name t = name \<and> distinct (map fst (tools s))"
  let ?s' = "s\<lparr>tools := AList.update name t (tools s)\<rparr>"
  have r: "RegisterTool s name (Some t) = (?s', None)"
    using a by (simp add: RegisterTool_def)
  have m: "map_of (tools ?s') name = Some t"
    by (simp add: update_conv')
  have d: "distinct (map fst (tools ?s'))"
    using a by (simp add: distinct_update)
  have "set (fst (ListTools ?s')) = (\<lambda>p. tool_info (snd p)) ` set (AList.update name t (tools s))"
    by (auto simp: ListTools_def tool_info_def case_prod_beta)
  also have "\<dots> = (\<lambda>p. tool_info (snd p)) ` insert (name, t) {p \<in> set (tools s). fst p \<noteq> name}"
    using a by (simp add: set_update_distinct)
  also have "\<dots> = insert (tool_info t) (tool_info ` {u. \<exists>k. (k, u) \<in> set (tools s) \<and> k \<noteq> name})"
    by force
  finally have l: "set (fst (ListTools ?s')) =
      insert (tool_info t) (tool_info ` {u. \<exists>k. (k, u) \<in> set (tools s) \<and> k \<noteq> name})" .
  have n: "name \<in> fst ` set (tools s) \<longrightarrow> length (fst (ListTools ?s')) = length (fst (ListTools s))"
    by (simp add: ListTools_def length_update_present)
  show "\<exists>s'. RegisterTool s name (Some t) = (s', None)
             \<and> map_of (tools s') name = Some t
             \<and> distinct (map fst (tools s'))
             \<and> set (fst (ListTools s')) =
                 insert (tool_info t) (tool_info ` {u. \<exists>k. (k, u) \<in> set (tools s) \<and> k \<noteq> name})
             \<and> (name \<in> fst ` set (tools s) \<longrightarrow> length (fst (ListTools s')) = length (fst (ListTools s)))"
    using r m d l n by blast
qed

theorem RegisterTool_rejects_and_replaces_witness:
  "(([]::string) = [] \<or> (None :: Tool option) = None
      \<or> (\<exists>t. (None :: Tool option) = Some t \<and> tool_Name t \<noteq> []))
   \<and> (\<exists>e. RegisterTool srv0 [] None = (srv0, Some e) \<and> errors_Is e ErrInvalidRequest)
   \<and> ''perplexity_search'' \<noteq> []
   \<and> tool_Name (echo_tool ''perplexity_search'' ''second'') = ''perplexity_search''
   \<and> distinct (map fst (tools srv0))
   \<and> ''perplexity_search'' \<in> fst ` set (tools srv0)
   \<and> (\<exists>s'. RegisterTool srv0 ''perplexity_search'' (Some (echo_tool ''perplexity_search'' ''second''))
              = (s', None)
         \<and> map_of (tools s') ''perplexity_search'' = Some (echo_tool ''perplexity_search'' ''second'')
         \<and> set (fst (ListTools s')) = {tool_info (echo_tool ''perplexity_search'' ''second'')}
         \<and> length (fst (ListTools s')) = length (fst (ListTools srv0)))"
proof -
  have a: "([]::string) = [] \<or> (None :: Tool option) = None
             \<or> (\<exists>t. (None :: Tool option) = Some t \<and> tool_Name t \<noteq> [])"
    by simp
  have b: "''perplexity_search'' \<noteq> []
     \<and> tool_Name (echo_tool ''perplexity_search'' ''second'') = ''perplexity_search''
     \<and> distinct (map fst (tools srv0))"
    by (simp add: echo_tool_def srv0_def)
  have c: "''perplexity_search'' \<in> fst ` set (tools srv0)"
    by (simp add: srv0_def)
  have e: "tool_info ` {u. \<exists>k. (k, u) \<in> set (tools srv0) \<and> k \<noteq> ''perplexity_search''} = {}"
    by (auto simp: srv0_def)
  from RegisterTool_rejects_and_replaces
         [of "[]" None srv0 "echo_tool ''perplexity_search'' ''second''"] a
  have 1: "\<exists>e. RegisterTool srv0 [] None = (srv0, Some e) \<and> errors_Is e ErrInvalidRequest"
    by blast
  from RegisterTool_rejects_and_replaces
         [of "''perplexity_search''" "None" srv0 "echo_tool ''perplexity_search'' ''second''"] b c
  obtain s' where 2:
     "RegisterTool srv0 ''perplexity_search'' (Some (echo_tool ''perplexity_search'' ''second''))
        = (s', None)"
     "map_of (tools s') ''perplexity_search'' = Some (echo_tool ''perplexity_search'' ''second'')"
     "set (fst (ListTools s')) = insert (tool_info (echo_tool ''perplexity_search'' ''second''))
         (tool_info ` {u. \<exists>k. (k, u) \<in> set (tools srv0) \<and> k \<noteq> ''perplexity_search''})"
     "length (fst (ListTools s')) = length (fst (ListTools srv0))"
    by blast
  show ?thesis using a b c 1 2 e by auto
qed

text \<open>
  Claim C10. Registration is atomic on the tools map: when \<open>RegisterTool\<close> returns a
  non-nil error the server state is the state before the call, and when it returns nil
  the map binds the name to the given tool and the binding of every other name is the
  one it had before.
\<close>

theorem RegisterTool_atomic:
  assumes "RegisterTool s name tool = (s', err)"
  shows "(err \<noteq> None \<longrightarrow> s' = s)
       \<and> (err = None \<longrightarrow> (\<exists>t. tool = Some t \<and> map_of (tools s') name = Some t
                               \<and> (\<forall>k. k \<noteq> name \<longrightarrow> map_of (tools s') k = map_of (tools s) k)))"
  using assms
  by (auto simp: RegisterTool_def update_conv' split: if_splits option.splits)

theorem RegisterTool_atomic_witness:
  "RegisterTool srv0 ''other'' (Some (echo_tool ''other'' ''o'')) =
     (\<lparr>tools = [(''perplexity_search'', echo_tool ''perplexity_search'' ''first''),
                 (''other'', echo_tool ''other'' ''o'')]\<rparr>, None)
   \<and> map_of (tools \<lparr>tools = [(''perplexity_search'', echo_tool ''perplexity_search'' ''first''),
                 (''other'', echo_tool ''other'' ''o'')]\<rparr>) ''other'' = Some (echo_tool ''other'' ''o'')
   \<and> map_of (tools \<lparr>tools = [(''perplexity_search'', echo_tool ''perplexity_search'' ''first''),
                 (''other'', echo_tool ''other'' ''o'')]\<rparr>) ''perplexity_search''
       = map_of (tools srv0) ''perplexity_search''
   \<and> RegisterTool srv0 ''other'' (Some (echo_tool ''mismatch'' ''o'')) =
       (srv0, Some (Wrap [] (Sentinel ErrInvalidRequest)
          ('': tool name mismatch: registered as '' @ [CHR 0x27] @ ''other'' @ [CHR 0x27]
            @ '' but tool reports name '' @ [CHR 0x27] @ ''mismatch'' @ [CHR 0x27])))"
proof -
  have h: "RegisterTool srv0 ''other'' (Some (echo_tool ''other'' ''o'')) =
     (\<lparr>tools = [(''perplexity_search'', echo_tool ''perplexity_search'' ''first''),
                 (''other'', echo_tool ''other'' ''o'')]\<rparr>, None)"
    by (simp add: RegisterTool_def srv0_def echo_tool_def)
  have g: "RegisterTool srv0 ''other'' (Some (echo_tool ''mismatch'' ''o'')) =
       (srv0, Some (Wrap [] (Sentinel ErrInvalidRequest)
          ('': tool name mismatch: registered as '' @ [CHR 0x27] @ ''other'' @ [CHR 0x27]
            @ '' but tool reports name '' @ [CHR 0x27] @ ''mismatch'' @ [CHR 0x27])))"
    by (simp add: RegisterTool_def echo_tool_def)
  show ?thesis using h g RegisterTool_atomic [OF h] RegisterTool_atomic [OF g]
    by (auto simp: srv0_def)
qed

section \<open>Validation\<close>

lemma validate_options_None:
  "validate_options opts = None \<longleftrightarrow>
     (\<forall>p \<in> set opts. length (fst p) \<le> MaxOptionKeyLength \<and> length (snd p) \<le> MaxOptionValueLength)"
  by (induction opts rule: validate_options.induct) auto

lemma validate_options_Some:
  "validate_options opts = Some e \<Longrightarrow> errors_Is e ErrInvalidRequest"
  by (induction opts rule: validate_options.induct) (auto simp: invalid_request_def split: if_splits)

lemma Validate_None_iff:
  "Validate L r = None \<longleftrightarrow>
     TrimSpace L (Query r) \<noteq> [] \<and> length (Query r) \<le> 10000
     \<and> (Model r = [] \<or> Model r \<in> {''sonar'', ''sonar-pro'', ''sonar-reasoning'',
                                        ''sonar-reasoning-pro'', ''sonar-deep-research''})
     \<and> (SearchMode r = [] \<or> SearchMode r \<in> {''web'', ''academic'', ''news''})
     \<and> (DateRange r = [] \<or> DateRange r \<in> {''day'', ''week'', ''month'', ''year''})
     \<and> 0 \<le> MaxTokens r \<and> MaxTokens r \<le> 128000
     \<and> length (Sources r) \<le> 10
     \<and> length (Options r) \<le> 20
     \<and> (\<forall>p \<in> set (Options r). length (fst p) \<le> 100 \<and> length (snd p) \<le> 1000)"
  unfolding Validate_def
  by (simp add: validate_options_None MaxQueryLength_def MaxSourcesCount_def MaxOptionsCount_def
        MaxOptionKeyLength_def MaxOptionValueLength_def validSonarModels_def validSearchModes_def
        validDateRanges_def not_less not_le)

lemma Validate_Some_kind:
  "Validate L r = Some e \<Longrightarrow>
     (if TrimSpace L (Query r) = [] then e = Sentinel ErrInvalidQuery else errors_Is e ErrInvalidRequest)"
  unfolding Validate_def
  by (auto simp: invalid_request_def dest: validate_options_Some split: if_splits)

lemma Search_invalid:
  "Validate L r = Some e \<Longrightarrow>
     Search L c r = ([], Inl (Wrap [] (Sentinel ErrInvalidRequest) ('': '' @ error_text e)))"
  by (simp add: Search_def)

text \<open>
  Claim C2, as amended. \<open>Validate\<close> returns nil if and only if the query is non-blank
  after trimming and at most 10,000 bytes long, the model is empty or one of the five
  sonar identifiers, the search mode is empty or one of web, academic, news, the date
  range is empty or one of day, week, month, year, \<open>max_tokens\<close> lies in
  \<open>[0, 128000]\<close>, there are at most 10 sources, and there are at most 20 options, each
  with a key of at most 100 and a value of at most 1,000 bytes. When \<open>Validate\<close> rejects,
  its error is the sentinel \<open>ErrInvalidQuery\<close> for a blank query and an error that wraps
  \<open>ErrInvalidRequest\<close> for every other violation; in both cases \<open>Search\<close> returns an
  error that wraps \<open>ErrInvalidRequest\<close> and carries the text of the validation error,
  and issues no upstream call.
\<close>

theorem Validate_accepts_iff:
  "(Validate L r = None \<longleftrightarrow>
      TrimSpace L (Query r) \<noteq> [] \<and> length (Query r) \<le> 10000
      \<and> (Model r = [] \<or> Model r \<in> {''sonar'', ''sonar-pro'', ''sonar-reasoning'',
                                         ''sonar-reasoning-pro'', ''sonar-deep-research''})
      \<and> (SearchMode r = [] \<or> SearchMode r \<in> {''web'', ''academic'', ''news''})
      \<and> (DateRange r = [] \<or> DateRange r \<in> {''day'', ''week'', ''month'', ''year''})
      \<and> 0 \<le> MaxTokens r \<and> MaxTokens r \<le> 128000
      \<and> length (Sources r) \<le> 10
      \<and> length (Options r) \<le> 20
      \<and> (\<forall>p \<in> set (Options r). length (fst p) \<le> 100 \<and> length (snd p) \<le> 1000))
   \<and> (Validate L r = Some e \<longrightarrow>
        (if TrimSpace L (Query r) = [] then e = Sentinel ErrInvalidQuery
         else errors_Is e ErrInvalidRequest)
        \<and> Search L c r = ([], Inl (Wrap [] (Sentinel ErrInvalidRequest) ('': '' @ error_text e)))
        \<and> errors_Is (Wrap [] (Sentinel ErrInvalidRequest) ('': '' @ error_text e)) ErrInvalidRequest)"
  using Validate_None_iff [of L r] Validate_Some_kind [of L r e] Search_invalid [of L r e c]
  by simp

theorem Validate_accepts_iff_witness:
  "Validate lib0 req_ok = None
   \<and> Validate lib0 (req_ok\<lparr>Query := replicate 10000 CHR ''x''\<rparr>) = None
   \<and> Validate lib0 (req_ok\<lparr>Query := replicate 10001 CHR ''x''\<rparr>) \<noteq> None
   \<and> Validate lib0 (req_ok\<lparr>MaxTokens := - 1\<rparr>)
       = Some (invalid_request ''max_tokens cannot be negative'')
   \<and> TrimSpace lib0 (Query (req_ok\<lparr>MaxTokens := - 1\<rparr>)) \<noteq> []
   \<and> errors_Is (invalid_request ''max_tokens cannot be negative'') ErrInvalidRequest
   \<and> Search lib0 client0 (req_ok\<lparr>MaxTokens := - 1\<rparr>)
       = ([], Inl (Wrap [] (Sentinel ErrInvalidRequest)
                     ('': '' @ error_text (invalid_request ''max_tokens cannot be negative''))))"
proof -
  have t: "TrimSpace lib0 ''What is quantum computing?'' \<noteq> []"
    by (simp add: lib0_def ascii_TrimSpace_def asciiSpace_def)
  have x: "TrimSpace lib0 (replicate n CHR ''x'') = replicate n CHR ''x''" for n
    by (simp add: lib0_def ascii_TrimSpace_def asciiSpace_def)
  have 1: "Validate lib0 req_ok = None"
    using Validate_accepts_iff [of lib0 req_ok] t by (simp add: req_ok_def)
  have 2: "Validate lib0 (req_ok\<lparr>Query := replicate 10000 CHR ''x''\<rparr>) = None"
    using Validate_accepts_iff [of lib0 "req_ok\<lparr>Query := replicate 10000 CHR ''x''\<rparr>"] x
    by (simp add: req_ok_def)
  have 3: "Validate lib0 (req_ok\<lparr>Query := replicate 10001 CHR ''x''\<rparr>) \<noteq> None"
    using Validate_accepts_iff [of lib0 "req_ok\<lparr>Query := replicate 10001 CHR ''x''\<rparr>"] x
    by (simp add: req_ok_def)
  have 4: "Validate lib0 (req_ok\<lparr>MaxTokens := - 1\<rparr>)
       = Some (invalid_request ''max_tokens cannot be negative'')"
    using t by (simp add: Validate_def req_ok_def MaxQueryLength_def)
  have 5: "TrimSpace lib0 (Query (req_ok\<lparr>MaxTokens := - 1\<rparr>)) \<noteq> []"
    using t by (simp add: req_ok_def)
  show ?thesis
    using 1 2 3 4 5
      Validate_accepts_iff [of lib0 "req_ok\<lparr>MaxTokens := - 1\<rparr>"
        "invalid_request ''max_tokens cannot be negative''" client0]
    by simp
qed

theorem Validate_blank_counterexample:
  "Validate lib0 (req_ok\<lparr>Query := []\<rparr>) = Some (Sentinel ErrInvalidQuery)
   \<and> \<not> errors_Is (Sentinel ErrInvalidQuery) ErrInvalidRequest"
  by (simp add: Validate_def lib0_def ascii_TrimSpace_def)

section \<open>Option processing\<close>

lemma option_step_long_key:
  "length key > MaxOptionKeyLength \<Longrightarrow> option_step L a key val = Inr a"
  by (simp add: option_step_def)

lemma option_step_long_val:
  "length key \<le> MaxOptionKeyLength \<Longrightarrow> length val > MaxOptionValueLength \<Longrightarrow>
   \<exists>e. option_step L a key val = Inl e"
  by (simp add: option_step_def)

lemma option_step_temperature:
  "length key \<le> MaxOptionKeyLength \<Longrightarrow> length val \<le> MaxOptionValueLength \<Longrightarrow>
   ToLower L key = ''temperature'' \<Longrightarrow>
   option_step L a key val =
     (case ParseFloat L val of
        Some temp \<Rightarrow> if f64_ge temp 0 \<and> f64_le temp 2 then Inr (a\<lparr>req_Temperature := Some temp\<rparr>) else Inr a
      | None \<Rightarrow> Inr a)"
  by (simp add: option_step_def)

lemma option_step_top_p:
  "length key \<le> MaxOptionKeyLength \<Longrightarrow> length val \<le> MaxOptionValueLength \<Longrightarrow>
   ToLower L key = ''top_p'' \<Longrightarrow>
   option_step L a key val =
     (case ParseFloat L val of
        Some topP \<Rightarrow> if f64_ge topP 0 \<and> f64_le topP 1 then Inr (a\<lparr>req_TopP := Some topP\<rparr>) else Inr a
      | None \<Rightarrow> Inr a)"
  by (simp add: option_step_def)

lemma option_step_disable_search:
  "length key \<le> MaxOptionKeyLength \<Longrightarrow> length val \<le> MaxOptionValueLength \<Longrightarrow>
   ToLower L key = ''disable_search'' \<Longrightarrow>
   option_step L a key val =
     (case ParseBool val of
        Some disable \<Rightarrow> Inr (a\<lparr>req_DisableSearch := Some disable\<rparr>)
      | None \<Rightarrow> Inr a)"
  by (simp add: option_step_def)

lemma option_step_search_domain_filter:
  "length key \<le> MaxOptionKeyLength \<Longrightarrow> length val \<le> MaxOptionValueLength \<Longrightarrow>
   ToLower L key = ''search_domain_filter'' \<Longrightarrow>
   option_step L a key val =
     (if length (valid_domains L (split_comma val)) > 10 then
        Inl (Opaque (''too many domains in search_domain_filter: ''
               @ itoa (int (length (valid_domains L (split_comma val)))) @ '' > 10''))
      else if length (valid_domains L (split_comma val)) > 0 then
        Inr (a\<lparr>req_SearchDomainFilter := valid_domains L (split_comma val)\<rparr>)
      else Inr a)"
  by (simp add: option_step_def Let_def MaxOptionValueLength_def maxDomainFilterLength_def)

lemma option_step_search_mode:
  "length key \<le> MaxOptionKeyLength \<Longrightarrow> length val \<le> MaxOptionValueLength \<Longrightarrow>
   ToLower L key = ''search_mode'' \<Longrightarrow>
   option_step L a key val =
     (if val \<in> set validSearchModes then Inr (a\<lparr>req_SearchMode := val\<rparr>) else Inr a)"
  by (simp add: option_step_def)

lemma option_step_unknown:
  "length key \<le> MaxOptionKeyLength \<Longrightarrow> length val \<le> MaxOptionValueLength \<Longrightarrow>
   ToLower L key \<notin> {''temperature'', ''top_p'', ''disable_search'', ''search_domain_filter'', ''search_mode''} \<Longrightarrow>
   option_step L a key val = Inr a"
  by (simp add: option_step_def)

lemma option_step_fails_iff:
  "(\<exists>e. option_step L a key val = Inl e) \<longleftrightarrow> fails_request L key val"
proof (cases "length key > MaxOptionKeyLength")
  case True
  then show ?thesis by (simp add: option_step_long_key fails_request_def)
next
  case kf: False
  show ?thesis
  proof (cases "length val > MaxOptionValueLength")
    case True
    then show ?thesis
      using kf option_step_long_val [of key val L a] by (simp add: fails_request_def)
  next
    case vf: False
    have k: "length key \<le> MaxOptionKeyLength" and v: "length val \<le> MaxOptionValueLength"
      using kf vf by simp_all
    consider (t) "ToLower L key = ''temperature''" | (p) "ToLower L key = ''top_p''"
      | (d) "ToLower L key = ''disable_search''" | (f) "ToLower L key = ''search_domain_filter''"
      | (m) "ToLower L key = ''search_mode''"
      | (u) "ToLower L key \<notin> {''temperature'', ''top_p'', ''disable_search'',
                                   ''search_domain_filter'', ''search_mode''}"
      by blast
    then show ?thesis
    proof cases
      case t
      show ?thesis using vf
        by (simp add: option_step_temperature [OF k v t] fails_request_def t split: option.splits)
    next
      case p
      show ?thesis using vf
        by (simp add: option_step_top_p [OF k v p] fails_request_def p split: option.splits)
    next
      case d
      show ?thesis using vf
        by (simp add: option_step_disable_search [OF k v d] fails_request_def d split: option.splits)
    next
      case f
      show ?thesis using vf k
        by (simp add: option_step_search_domain_filter [OF k v f] fails_request_def f)
    next
      case m
      show ?thesis using vf
        by (simp add: option_step_search_mode [OF k v m] fails_request_def m)
    next
      case u
      show ?thesis using vf u
        by (simp add: option_step_unknown [OF k v u] fails_request_def)
    qed
  qed
qed

lemma option_step_drop:
  assumes "fails_own_bound L key val"
  shows "option_step L a key val = Inr a"
proof (cases "length key > MaxOptionKeyLength")
  case True
  then show ?thesis by (simp add: option_step_long_key)
next
  case False
  then have k: "length key \<le> MaxOptionKeyLength" by simp
  from assms False have v: "length val \<le> MaxOptionValueLength"
    by (simp add: fails_own_bound_def)
  from assms False have
    "(ToLower L key = ''temperature'' \<and>
        (case ParseFloat L val of None \<Rightarrow> True | Some t \<Rightarrow> \<not> (f64_ge t 0 \<and> f64_le t 2)))
     \<or> (ToLower L key = ''top_p'' \<and>
        (case ParseFloat L val of None \<Rightarrow> True | Some t \<Rightarrow> \<not> (f64_ge t 0 \<and> f64_le t 1)))
     \<or> (ToLower L key = ''disable_search'' \<and> ParseBool val = None)
     \<or> (ToLower L key = ''search_mode'' \<and> val \<notin> set validSearchModes)"
    by (simp add: fails_own_bound_def)
  then consider
      (t) "ToLower L key = ''temperature''"
          "(case ParseFloat L val of None \<Rightarrow> True | Some t \<Rightarrow> \<not> (f64_ge t 0 \<and> f64_le t 2))"
    | (p) "ToLower L key = ''top_p''"
          "(case ParseFloat L val of None \<Rightarrow> True | Some t \<Rightarrow> \<not> (f64_ge t 0 \<and> f64_le t 1))"
    | (d) "ToLower L key = ''disable_search''" "ParseBool val = None"
    | (m) "ToLower L key = ''search_mode''" "val \<notin> set validSearchModes"
    by (elim disjE conjE) 
  then show ?thesis
  proof cases
    case t
    show ?thesis using t(2) by (auto simp: option_step_temperature [OF k v t(1)] split: option.splits)
  next
    case p
    show ?thesis using p(2) by (auto simp: option_step_top_p [OF k v p(1)] split: option.splits)
  next
    case d
    show ?thesis using d(2) by (simp add: option_step_disable_search [OF k v d(1)])
  next
    case m
    show ?thesis using m(2) by (simp add: option_step_search_mode [OF k v m(1)])
  qed
qed
lemma valid_domains_drop:
  "bad_domain L d \<Longrightarrow> valid_domains L (d # ds) = valid_domains L ds"
  by (auto simp: bad_domain_def Let_def)

lemma processSearchOptions_fails_iff:
  "snd (processSearchOptions L a opts) \<noteq> None \<longleftrightarrow>
     (\<exists>p \<in> set opts. fails_request L (fst p) (snd p))"
proof (induction opts arbitrary: a)
  case Nil
  show ?case by simp
next
  case (Cons p opts)
  obtain key val where p: "p = (key, val)" by (cases p)
  show ?case
  proof (cases "option_step L a key val")
    case (Inl e)
    then have "fails_request L key val" using option_step_fails_iff by blast
    then show ?thesis using Inl p by simp
  next
    case (Inr a')
    then have "\<not> fails_request L key val" using option_step_fails_iff [of L a key val] by simp
    then show ?thesis using Inr p Cons.IH [of a'] by simp
  qed
qed

lemma SearchRequestToAPI_fails_iff:
  "(\<exists>e. SearchRequestToAPI L req = Inl e) \<longleftrightarrow>
     (\<exists>p \<in> set (Options req). fails_request L (fst p) (snd p))"
proof -
  have "(\<exists>e. SearchRequestToAPI L req = Inl e) \<longleftrightarrow>
          snd (processSearchOptions L
                 (let apiReq = \<lparr>req_Model = Model req,
                     req_Messages = [\<lparr>msg_Role = ''user'', msg_Content = Query req\<rparr>],
                     req_MaxTokens = None, req_Temperature = None, req_TopP = None,
                     req_Stream = False, req_SearchMode = SearchMode req,
                     req_DisableSearch = None, req_SearchDomainFilter = [],
                     req_ReasoningEffort = []\<rparr>;
                   apiReq = (if MaxTokens req > 0 then apiReq\<lparr>req_MaxTokens := Some (MaxTokens req)\<rparr> else apiReq);
                   apiReq = (if length (Sources req) > 0 then apiReq\<lparr>req_SearchDomainFilter := Sources req\<rparr> else apiReq)
                  in apiReq) (Options req)) \<noteq> None"
    unfolding SearchRequestToAPI_def Let_def
    by (simp split: prod.splits option.splits)
  then show ?thesis using processSearchOptions_fails_iff by simp
qed

text \<open>
  Claim C5, as amended. In the translation of a request, an option that fails its own
  bound (an over-long key; an out-of-range or unparseable temperature or top_p, an
  unparseable \<open>disable_search\<close>, an invalid \<open>search_mode\<close>, the value being within
  its length bound) leaves the wire request as it was and does not fail the request, and
  an over-long or malformed domain of \<open>search_domain_filter\<close> is left out of the filter.
  The translation fails exactly when some option with a key of at most 100 bytes has a
  value longer than 1,000 bytes or is a \<open>search_domain_filter\<close> that lists more than
  ten valid domains.
\<close>

theorem processSearchOptions_drops_or_fails:
  "(fails_own_bound L key val \<longrightarrow> option_step L a key val = Inr a)
   \<and> (bad_domain L d \<longrightarrow> valid_domains L (d # ds) = valid_domains L ds)
   \<and> ((\<exists>e. option_step L a key val = Inl e) \<longleftrightarrow> fails_request L key val)
   \<and> (snd (processSearchOptions L a opts) \<noteq> None \<longleftrightarrow>
        (\<exists>p \<in> set opts. fails_request L (fst p) (snd p)))
   \<and> ((\<exists>e. SearchRequestToAPI L req = Inl e) \<longleftrightarrow>
        (\<exists>p \<in> set (Options req). fails_request L (fst p) (snd p)))"
  using option_step_drop [of L key val a] valid_domains_drop [of L d ds]
    option_step_fails_iff [of L a key val] processSearchOptions_fails_iff [of L a opts]
    SearchRequestToAPI_fails_iff [of L req]
  by blast

lemma valid_domains_eleven:
  "valid_domains lib0 (split_comma eleven_domains)
     = [''a'', ''b'', ''c'', ''d'', ''e'', ''f'', ''g'', ''h'', ''i'', ''j'', ''k'']"
  by (simp add: eleven_domains_def lib0_def ascii_TrimSpace_def asciiSpace_def)

lemma ToLower_lib0_search_domain_filter:
  "ToLower lib0 ''search_domain_filter'' = ''search_domain_filter''"
  by (simp add: lib0_def ascii_ToLower_def ascii_lower_def)

theorem processSearchOptions_drops_or_fails_witness:
  "fails_own_bound lib0 ''temperature'' ''3.0''
   \<and> option_step lib0 api0 ''temperature'' ''3.0'' = Inr api0
   \<and> bad_domain lib0 ''example.com/path''
   \<and> valid_domains lib0 [''example.com/path'', ''valid.com''] = valid_domains lib0 [''valid.com'']
   \<and> fails_request lib0 ''search_domain_filter'' eleven_domains
   \<and> (\<exists>e. option_step lib0 api0 ''search_domain_filter'' eleven_domains = Inl e)
   \<and> snd (processSearchOptions lib0 api0
             [(''temperature'', ''3.0''), (''search_domain_filter'', eleven_domains)]) \<noteq> None
   \<and> \<not> fails_request lib0 ''temperature'' ''3.0''
   \<and> snd (processSearchOptions lib0 api0 [(''temperature'', ''3.0'')]) = None"
proof -
  have 1: "fails_own_bound lib0 ''temperature'' ''3.0''"
    by (simp add: fails_own_bound_def lib0_def ascii_ToLower_def ascii_lower_def
          decimal_examples_def MaxOptionKeyLength_def MaxOptionValueLength_def)
  have 2: "bad_domain lib0 ''example.com/path''"
    by (simp add: bad_domain_def lib0_def ascii_TrimSpace_def asciiSpace_def)
  have 3: "fails_request lib0 ''search_domain_filter'' eleven_domains"
    unfolding fails_request_def valid_domains_eleven ToLower_lib0_search_domain_filter
    by (simp add: MaxOptionKeyLength_def)
  have 4: "\<not> fails_request lib0 ''temperature'' ''3.0''"
    by (simp add: fails_request_def lib0_def ascii_ToLower_def ascii_lower_def
          MaxOptionValueLength_def)
  have 5: "\<exists>p \<in> set [(''temperature'', ''3.0''), (''search_domain_filter'', eleven_domains)].
             fails_request lib0 (fst p) (snd p)"
    using 3 by simp
  have 6: "\<not> (\<exists>p \<in> set [(''temperature'', ''3.0'')]. fails_request lib0 (fst p) (snd p))"
    using 4 by simp
  show ?thesis
    using 1 2 3 4 5 6
      processSearchOptions_drops_or_fails [of lib0 "''temperature''" "''3.0''" api0
        "''example.com/path''" "[''valid.com'']" "[(''temperature'', ''3.0'')]" req_ok]
      processSearchOptions_drops_or_fails [of lib0 "''search_domain_filter''" eleven_domains api0
        "''example.com/path''" "[''valid.com'']"
        "[(''temperature'', ''3.0''), (''search_domain_filter'', eleven_domains)]" req_ok]
    by blast
qed

lemma processSearchOptions_eleven:
  "processSearchOptions lib0 api0 [(''search_domain_filter'', eleven_domains)]
     = (api0, Some (Opaque ''too many domains in search_domain_filter: 11 > 10''))"
proof -
  have i: "itoa 11 = ''11''" by (simp add: itoa_def nat_digits.simps)
  have "option_step lib0 api0 ''search_domain_filter'' eleven_domains
          = Inl (Opaque ''too many domains in search_domain_filter: 11 > 10'')"
    unfolding option_step_def valid_domains_eleven ToLower_lib0_search_domain_filter
    by (simp add: i MaxOptionKeyLength_def MaxOptionValueLength_def maxDomainFilterLength_def
          eleven_domains_def)
  then show ?thesis by simp
qed

theorem processSearchOptions_domains_counterexample:
  "length eleven_domains \<le> MaxOptionValueLength
   \<and> processSearchOptions lib0 api0 [(''search_domain_filter'', eleven_domains)]
       = (api0, Some (Opaque ''too many domains in search_domain_filter: 11 > 10''))"
  using processSearchOptions_eleven by (simp add: eleven_domains_def MaxOptionValueLength_def)

section \<open>The upstream call\<close>

lemma makeRequest_calls:
  "fst (makeRequest L c apiReq) =
     (if NewRequestErr L (baseURL c @ ChatCompletionsEndpoint) = None
      then [upstream_request c apiReq] else [])"
  by (simp add: makeRequest_def upstream_request_def Let_def split: option.splits)

lemma makeRequest_response:
  assumes "NewRequestErr L (baseURL c @ ChatCompletionsEndpoint) = None"
      and "httpClient c (upstream_request c apiReq) = DoResponse resp"
  shows "snd (makeRequest L c apiReq) =
     (case read_limited MaxResponseSize (BodyReads resp) of
        (respBody, Some m) \<Rightarrow> Inl (read_failed m)
      | (respBody, None) \<Rightarrow>
          if length respBody = MaxResponseSize then Inl response_too_large
          else after_read L (StatusCode resp) respBody)"
proof -
  note h = assms(2) [unfolded upstream_request_def, simplified]
  show ?thesis
    by (simp add: makeRequest_def Let_def assms(1) h response_too_large_def read_failed_def
          after_read_def split: option.splits prod.splits)
qed

lemma read_limited_length: "length (fst (read_limited n reads)) \<le> n"
proof (induction n reads rule: read_limited.induct)
  case (1 n)
  show ?case by simp
next
  case (2 n chunk e rest)
  show ?case by simp
next
  case (3 n chunk rest)
  show ?case
  proof (cases "n = 0")
    case True
    then show ?thesis by simp
  next
    case False
    then have "length (fst (read_limited (n - length (take n chunk)) rest))
                 \<le> n - length (take n chunk)"
      using 3 by simp
    then show ?thesis using False by simp
  qed
qed

lemma read_limited_clean:
  "\<forall>r \<in> set reads. snd r = None \<Longrightarrow>
   read_limited n reads = (take n (concat (map fst reads)), None)"
proof (induction n reads rule: read_limited.induct)
  case (1 n)
  show ?case by simp
next
  case (2 n chunk e rest)
  then show ?case by simp
next
  case (3 n chunk rest)
  show ?case
  proof (cases "n = 0")
    case True
    then show ?thesis by simp
  next
    case False
    have "read_limited (n - length (take n chunk)) rest
            = (take (n - length (take n chunk)) (concat (map fst rest)), None)"
      using 3 False by simp
    moreover have "take (n - length (take n chunk)) (concat (map fst rest))
                     = take (n - length chunk) (concat (map fst rest))"
      by (cases "length chunk \<le> n") (simp_all add: min_def)
    ultimately show ?thesis using False by simp
  qed
qed

subsection \<open>Upstream failures\<close>

lemma mapAPIError_Is: "errors_Is (mapAPIError c m) t = (t = status_sentinel c)"
  by (auto simp: mapAPIError_def status_sentinel_def)

lemma mapStatusCodeError_Is: "errors_Is (mapStatusCodeError c b) t = (t = status_sentinel c)"
  by (auto simp: mapStatusCodeError_def status_sentinel_def)

text \<open>
  Claim C4. For every status code and every body, structured or not, the error that
  \<open>handleErrorResponse\<close> returns wraps exactly the sentinel of the status code: 400
  gives \<open>ErrInvalidRequest\<close>, 401 gives \<open>ErrAPIKeyMissing\<close>, 429 gives
  \<open>ErrRateLimited\<close>, and 500, 502, 503 and every other code give \<open>ErrAPIError\<close>;
  for a code outside these six the message carries the code, as \<open>HTTP\<close> followed by
  its decimal digits. This is the error \<open>makeRequest\<close> returns for every response
  with a status other than 200 whose body it has read without error and under the size
  cap.
\<close>

theorem handleErrorResponse_by_status:
  "errors_Is (handleErrorResponse L statusCode body) t = (t = status_sentinel statusCode)
   \<and> (statusCode \<notin> {400, 401, 429, 500, 502, 503} \<longrightarrow>
        (\<exists>rest. error_text (handleErrorResponse L statusCode body)
                  = ''perplexity API error: HTTP '' @ itoa statusCode @ rest))
   \<and> (fst (makeRequest L c apiReq) = [h] \<and> httpClient c h = DoResponse resp
        \<and> read_limited MaxResponseSize (BodyReads resp) = (respBody, None)
        \<and> length respBody < MaxResponseSize
        \<and> StatusCode resp \<noteq> 200 \<longrightarrow>
        snd (makeRequest L c apiReq)
          = Inl (handleErrorResponse L (StatusCode resp) respBody))"
proof (intro conjI impI)
  show "errors_Is (handleErrorResponse L statusCode body) t = (t = status_sentinel statusCode)"
    by (simp add: handleErrorResponse_def mapAPIError_Is mapStatusCodeError_Is split: option.splits)
next
  assume "statusCode \<notin> {400, 401, 429, 500, 502, 503}"
  then show "\<exists>rest. error_text (handleErrorResponse L statusCode body)
                  = ''perplexity API error: HTTP '' @ itoa statusCode @ rest"
    by (simp add: handleErrorResponse_def mapAPIError_def mapStatusCodeError_def split: option.splits)
next
  assume a: "fst (makeRequest L c apiReq) = [h] \<and> httpClient c h = DoResponse resp
        \<and> read_limited MaxResponseSize (BodyReads resp) = (respBody, None)
        \<and> length respBody < MaxResponseSize
        \<and> StatusCode resp \<noteq> 200"
  then have n: "NewRequestErr L (baseURL c @ ChatCompletionsEndpoint) = None"
    and h: "h = upstream_request c apiReq"
    by (auto simp: makeRequest_calls split: if_splits)
  show "snd (makeRequest L c apiReq)
          = Inl (handleErrorResponse L (StatusCode resp) respBody)"
    using makeRequest_response [OF n, of apiReq resp] a h by (simp add: after_read_def)
qed

theorem handleErrorResponse_by_status_witness:
  "(404::int) \<notin> {400, 401, 429, 500, 502, 503}
   \<and> errors_Is (handleErrorResponse lib0 404 ''not found'') ErrAPIError
   \<and> error_text (handleErrorResponse lib0 404 ''not found'') = ''perplexity API error: HTTP 404''
   \<and> fst (makeRequest lib0 client_not_found api0) = [upstream_request client_not_found api0]
   \<and> httpClient client_not_found (upstream_request client_not_found api0)
       = DoResponse \<lparr>StatusCode = 404, BodyReads = [(''not found'', None)]\<rparr>
   \<and> read_limited MaxResponseSize [(''not found'', None)] = (''not found'', None)
   \<and> length ''not found'' < MaxResponseSize
   \<and> snd (makeRequest lib0 client_not_found api0) = Inl (handleErrorResponse lib0 404 ''not found'')"
proof -
  let ?resp = "\<lparr>StatusCode = 404, BodyReads = [(''not found'', None)]\<rparr>"
  have g: "(404::int) \<notin> {400, 401, 429, 500, 502, 503}" by simp
  have i: "itoa 404 = ''404''" by (simp add: itoa_def nat_digits.simps)
  have e: "error_text (handleErrorResponse lib0 404 ''not found'') = ''perplexity API error: HTTP 404''"
    by (simp add: handleErrorResponse_def lib0_def mapStatusCodeError_def i)
  have f: "fst (makeRequest lib0 client_not_found api0) = [upstream_request client_not_found api0]"
    by (simp add: makeRequest_calls lib0_def)
  have d: "httpClient client_not_found (upstream_request client_not_found api0) = DoResponse ?resp"
    by (simp add: client_not_found_def)
  have r: "read_limited MaxResponseSize (BodyReads ?resp) = (''not found'', None)"
    by (simp add: MaxResponseSize_def)
  have l: "length ''not found'' < MaxResponseSize \<and> StatusCode ?resp \<noteq> 200"
    by (simp add: MaxResponseSize_def)
  from handleErrorResponse_by_status
         [of lib0 404 "''not found''" ErrAPIError client_not_found api0
             "upstream_request client_not_found api0" ?resp "''not found''"] f d r l
  have 1: "errors_Is (handleErrorResponse lib0 404 ''not found'') ErrAPIError"
    and 2: "snd (makeRequest lib0 client_not_found api0)
              = Inl (handleErrorResponse lib0 404 ''not found'')"
    by (simp_all add: status_sentinel_def)
  show ?thesis using g e f d r l 1 2 by simp
qed

lemma case_calls_result:
  "(case p of (calls, Inl err) \<Rightarrow> (calls, Inl err) | (calls, Inr r) \<Rightarrow> (calls, Inr (f r)))
     = (fst p, case snd p of Inl err \<Rightarrow> Inl err | Inr r \<Rightarrow> Inr (f r))"
  by (cases p) (simp split: sum.splits)

lemma Search_unfold:
  "Search L c req =
     (case Validate L req of
        Some err \<Rightarrow> ([], Inl (Wrap [] (Sentinel ErrInvalidRequest) ('': '' @ error_text err)))
      | None \<Rightarrow>
          (case SearchRequestToAPI L (if Model req = [] then req\<lparr>Model := DefaultModel\<rparr> else req) of
             Inl err \<Rightarrow> ([], Inl (Wrap ''failed to convert search request: '' err []))
           | Inr apiReq \<Rightarrow>
               (fst (makeRequest L c apiReq),
                case snd (makeRequest L c apiReq) of
                  Inl err \<Rightarrow> Inl err
                | Inr apiResp \<Rightarrow> Inr (APIResponseToSearchResult apiResp))))"
  unfolding Search_def Let_def case_calls_result ..

lemma Search_calls:
  "fst (Search L c req) = [] \<or> (\<exists>apiReq. fst (Search L c req) = fst (makeRequest L c apiReq)
       \<and> snd (Search L c req) =
           (case snd (makeRequest L c apiReq) of Inl err \<Rightarrow> Inl err
            | Inr apiResp \<Rightarrow> Inr (APIResponseToSearchResult apiResp)))"
proof (cases "Validate L req")
  case (Some e)
  then show ?thesis by (simp add: Search_unfold)
next
  case None
  show ?thesis
  proof (cases "SearchRequestToAPI L (if Model req = [] then req\<lparr>Model := DefaultModel\<rparr> else req)")
    case (Inl e)
    then show ?thesis using None by (simp add: Search_unfold split del: if_split)
  next
    case (Inr apiReq)
    then have "fst (Search L c req) = fst (makeRequest L c apiReq)
       \<and> snd (Search L c req) =
           (case snd (makeRequest L c apiReq) of Inl err \<Rightarrow> Inl err
            | Inr apiResp \<Rightarrow> Inr (APIResponseToSearchResult apiResp))"
      using None by (simp add: Search_unfold split del: if_split)
    then show ?thesis by blast
  qed
qed

text \<open>
  Claim C6, as amended. When the transport answers a request of \<open>makeRequest\<close> and
  the read of the body through the size cap returns, without an error, exactly
  \<open>MaxResponseSize\<close> (10 MiB) bytes, \<open>makeRequest\<close> returns the error "response too
  large", which wraps \<open>ErrAPIError\<close>, and \<open>Search\<close> returns that error and no
  result; this is so for every body none of whose reads fails and that delivers at least
  \<open>MaxResponseSize\<close> bytes. When the capped read returns an error, also with bytes
  that reach the cap, the outcome is the error "failed to read response", which wraps
  \<open>ErrNetworkError\<close>. A body read without error and strictly under the cap is not
  rejected for its size: the outcome is what the status code and the decoding of the
  whole body give.
\<close>

theorem makeRequest_size_cap:
  "(fst (makeRequest L c apiReq) = [h] \<and> httpClient c h = DoResponse resp
      \<and> read_limited MaxResponseSize (BodyReads resp) = (respBody, None)
      \<and> length respBody = MaxResponseSize
      \<longrightarrow> snd (makeRequest L c apiReq) = Inl response_too_large
          \<and> errors_Is response_too_large ErrAPIError)
   \<and> (fst (Search L c req) = [h] \<and> httpClient c h = DoResponse resp
      \<and> read_limited MaxResponseSize (BodyReads resp) = (respBody, None)
      \<and> length respBody = MaxResponseSize
      \<longrightarrow> snd (Search L c req) = Inl response_too_large)
   \<and> (fst (makeRequest L c apiReq) = [h] \<and> httpClient c h = DoResponse resp
      \<and> (\<forall>r \<in> set (BodyReads resp). snd r = None)
      \<and> length (concat (map fst (BodyReads resp))) \<ge> MaxResponseSize
      \<longrightarrow> snd (makeRequest L c apiReq) = Inl response_too_large)
   \<and> (fst (makeRequest L c apiReq) = [h] \<and> httpClient c h = DoResponse resp
      \<and> read_limited MaxResponseSize (BodyReads resp) = (respBody, Some m)
      \<longrightarrow> snd (makeRequest L c apiReq) = Inl (read_failed m)
          \<and> errors_Is (read_failed m) ErrNetworkError
          \<and> \<not> errors_Is (read_failed m) ErrAPIError)
   \<and> (fst (makeRequest L c apiReq) = [h] \<and> httpClient c h = DoResponse resp
      \<and> read_limited MaxResponseSize (BodyReads resp) = (respBody, None)
      \<and> length respBody < MaxResponseSize
      \<longrightarrow> snd (makeRequest L c apiReq) = after_read L (StatusCode resp) respBody)"
proof (intro conjI impI)
  assume a: "fst (makeRequest L c apiReq) = [h] \<and> httpClient c h = DoResponse resp
      \<and> read_limited MaxResponseSize (BodyReads resp) = (respBody, None)
      \<and> length respBody = MaxResponseSize"
  then have n: "NewRequestErr L (baseURL c @ ChatCompletionsEndpoint) = None"
    and h: "h = upstream_request c apiReq"
    by (auto simp: makeRequest_calls split: if_splits)
  show "snd (makeRequest L c apiReq) = Inl response_too_large"
    using makeRequest_response [OF n, of apiReq resp] a h by simp
  show "errors_Is response_too_large ErrAPIError"
    by (simp add: response_too_large_def)
next
  assume a: "fst (Search L c req) = [h] \<and> httpClient c h = DoResponse resp
      \<and> read_limited MaxResponseSize (BodyReads resp) = (respBody, None)
      \<and> length respBody = MaxResponseSize"
  with Search_calls [of L c req] obtain apiReq where
    s: "fst (makeRequest L c apiReq) = [h]"
       "snd (Search L c req) =
           (case snd (makeRequest L c apiReq) of Inl err \<Rightarrow> Inl err
            | Inr apiResp \<Rightarrow> Inr (APIResponseToSearchResult apiResp))"
    by auto
  from s(1) have n: "NewRequestErr L (baseURL c @ ChatCompletionsEndpoint) = None"
    and h: "h = upstream_request c apiReq"
    by (auto simp: makeRequest_calls split: if_splits)
  have "snd (makeRequest L c apiReq) = Inl response_too_large"
    using makeRequest_response [OF n, of apiReq resp] a h by simp
  then show "snd (Search L c req) = Inl response_too_large"
    using s(2) by simp
next
  assume a: "fst (makeRequest L c apiReq) = [h] \<and> httpClient c h = DoResponse resp
      \<and> (\<forall>r \<in> set (BodyReads resp). snd r = None)
      \<and> length (concat (map fst (BodyReads resp))) \<ge> MaxResponseSize"
  then have n: "NewRequestErr L (baseURL c @ ChatCompletionsEndpoint) = None"
    and h: "h = upstream_request c apiReq"
    by (auto simp: makeRequest_calls split: if_splits)
  have r: "read_limited MaxResponseSize (BodyReads resp)
             = (take MaxResponseSize (concat (map fst (BodyReads resp))), None)"
    using a read_limited_clean by blast
  have l: "length (take MaxResponseSize (concat (map fst (BodyReads resp)))) = MaxResponseSize"
    using a by simp
  show "snd (makeRequest L c apiReq) = Inl response_too_large"
    using makeRequest_response [OF n, of apiReq resp] a h r l by simp
next
  assume a: "fst (makeRequest L c apiReq) = [h] \<and> httpClient c h = DoResponse resp
      \<and> read_limited MaxResponseSize (BodyReads resp) = (respBody, Some m)"
  then have n: "NewRequestErr L (baseURL c @ ChatCompletionsEndpoint) = None"
    and h: "h = upstream_request c apiReq"
    by (auto simp: makeRequest_calls split: if_splits)
  show "snd (makeRequest L c apiReq) = Inl (read_failed m)"
    using makeRequest_response [OF n, of apiReq resp] a h by simp
  show "errors_Is (read_failed m) ErrNetworkError"
    by (simp add: read_failed_def)
  show "\<not> errors_Is (read_failed m) ErrAPIError"
    by (simp add: read_failed_def)
next
  assume a: "fst (makeRequest L c apiReq) = [h] \<and> httpClient c h = DoResponse resp
      \<and> read_limited MaxResponseSize (BodyReads resp) = (respBody, None)
      \<and> length respBody < MaxResponseSize"
  then have n: "NewRequestErr L (baseURL c @ ChatCompletionsEndpoint) = None"
    and h: "h = upstream_request c apiReq"
    by (auto simp: makeRequest_calls split: if_splits)
  show "snd (makeRequest L c apiReq) = after_read L (StatusCode resp) respBody"
    using makeRequest_response [OF n, of apiReq resp] a h by simp
qed

lemma makeRequest_lib0_calls:
  "NewRequestErr lib0 (baseURL c @ ChatCompletionsEndpoint) = None
   \<and> fst (makeRequest lib0 c api0) = [upstream_request c api0]"
  by (simp add: makeRequest_calls lib0_def)

lemma Search_req_ok_calls:
  "fst (Search lib0 c req_ok) = [upstream_request c api0]"
proof -
  have t: "TrimSpace lib0 ''What is quantum computing?'' \<noteq> []"
    by (simp add: lib0_def ascii_TrimSpace_def asciiSpace_def)
  have v: "Validate lib0 req_ok = None"
    using t by (simp add: Validate_None_iff req_ok_def)
  have a: "SearchRequestToAPI lib0 req_ok = Inr api0"
    by (simp add: SearchRequestToAPI_def req_ok_def api0_def)
  have m: "Model req_ok \<noteq> []" by (simp add: req_ok_def)
  show ?thesis
    using makeRequest_lib0_calls [of c]
    by (simp add: Search_unfold v a m)
qed

lemma read_limited_one_clean:
  "0 < n \<Longrightarrow> read_limited n [(chunk, None)] = (take n chunk, None)"
  by simp

lemma read_limited_one_failed:
  "0 < n \<Longrightarrow> read_limited n [(chunk, Some e)] = (take n chunk, Some e)"
  by simp

lemma MaxResponseSize_pos: "0 < MaxResponseSize"
  by (simp add: MaxResponseSize_def)

lemma read_limited_cap_broken:
  "read_limited MaxResponseSize [(replicate MaxResponseSize CHR ''x'', Some ''connection reset'')]
     = (replicate MaxResponseSize CHR ''x'', Some ''connection reset'')"
  using read_limited_one_failed [OF MaxResponseSize_pos] by simp

lemma makeRequest_cap_broken:
  "snd (makeRequest lib0 (client_broken MaxResponseSize) api0)
     = Inl (read_failed ''connection reset'')"
proof -
  have d: "httpClient (client_broken MaxResponseSize)
             (upstream_request (client_broken MaxResponseSize) api0)
           = DoResponse \<lparr>StatusCode = 200,
               BodyReads = [(replicate MaxResponseSize CHR ''x'', Some ''connection reset'')]\<rparr>"
    by (simp add: client_broken_def)
  have n: "NewRequestErr lib0 (baseURL (client_broken MaxResponseSize) @ ChatCompletionsEndpoint) = None"
    by (simp add: lib0_def)
  show ?thesis
    using makeRequest_response [OF n d] read_limited_cap_broken by simp
qed

theorem makeRequest_size_cap_witness:
  "fst (makeRequest lib0 (client_body MaxResponseSize) api0)
      = [upstream_request (client_body MaxResponseSize) api0]
   \<and> httpClient (client_body MaxResponseSize) (upstream_request (client_body MaxResponseSize) api0)
      = DoResponse \<lparr>StatusCode = 200, BodyReads = [(replicate MaxResponseSize CHR ''x'', None)]\<rparr>
   \<and> read_limited MaxResponseSize [(replicate MaxResponseSize CHR ''x'', None)]
      = (replicate MaxResponseSize CHR ''x'', None)
   \<and> length (replicate MaxResponseSize CHR ''x'') = MaxResponseSize
   \<and> snd (makeRequest lib0 (client_body MaxResponseSize) api0) = Inl response_too_large
   \<and> fst (Search lib0 (client_body MaxResponseSize) req_ok)
      = [upstream_request (client_body MaxResponseSize) api0]
   \<and> snd (Search lib0 (client_body MaxResponseSize) req_ok) = Inl response_too_large
   \<and> fst (makeRequest lib0 (client_broken MaxResponseSize) api0)
      = [upstream_request (client_broken MaxResponseSize) api0]
   \<and> read_limited MaxResponseSize [(replicate MaxResponseSize CHR ''x'', Some ''connection reset'')]
      = (replicate MaxResponseSize CHR ''x'', Some ''connection reset'')
   \<and> snd (makeRequest lib0 (client_broken MaxResponseSize) api0)
      = Inl (read_failed ''connection reset'')
   \<and> fst (makeRequest lib0 (client_body (MaxResponseSize - 1)) api0)
      = [upstream_request (client_body (MaxResponseSize - 1)) api0]
   \<and> read_limited MaxResponseSize [(replicate (MaxResponseSize - 1) CHR ''x'', None)]
      = (replicate (MaxResponseSize - 1) CHR ''x'', None)
   \<and> length (replicate (MaxResponseSize - 1) CHR ''x'') < MaxResponseSize
   \<and> snd (makeRequest lib0 (client_body (MaxResponseSize - 1)) api0)
      = after_read lib0 200 (replicate (MaxResponseSize - 1) CHR ''x'')"
proof -
  let ?big = "\<lparr>StatusCode = 200, BodyReads = [(replicate MaxResponseSize CHR ''x'', None)]\<rparr>"
  let ?bad = "\<lparr>StatusCode = 200,
               BodyReads = [(replicate MaxResponseSize CHR ''x'', Some ''connection reset'')]\<rparr>"
  let ?small = "\<lparr>StatusCode = 200, BodyReads = [(replicate (MaxResponseSize - 1) CHR ''x'', None)]\<rparr>"
  let ?hb = "upstream_request (client_body MaxResponseSize) api0"
  let ?hx = "upstream_request (client_broken MaxResponseSize) api0"
  let ?hs = "upstream_request (client_body (MaxResponseSize - 1)) api0"
  have rb: "read_limited MaxResponseSize (BodyReads ?big) = (replicate MaxResponseSize CHR ''x'', None)"
    using read_limited_one_clean [OF MaxResponseSize_pos] by simp
  have rx: "read_limited MaxResponseSize (BodyReads ?bad)
              = (replicate MaxResponseSize CHR ''x'', Some ''connection reset'')"
    using read_limited_cap_broken by simp
  have rs: "read_limited MaxResponseSize (BodyReads ?small)
              = (replicate (MaxResponseSize - 1) CHR ''x'', None)"
    using read_limited_one_clean [OF MaxResponseSize_pos] by simp
  have 1: "fst (makeRequest lib0 (client_body MaxResponseSize) api0) = [?hb]
           \<and> httpClient (client_body MaxResponseSize) ?hb = DoResponse ?big
           \<and> read_limited MaxResponseSize (BodyReads ?big) = (replicate MaxResponseSize CHR ''x'', None)
           \<and> length (replicate MaxResponseSize CHR ''x'') = MaxResponseSize"
    using makeRequest_lib0_calls [of "client_body MaxResponseSize"] rb
    by (simp add: client_body_def)
  have 2: "fst (Search lib0 (client_body MaxResponseSize) req_ok) = [?hb]
           \<and> httpClient (client_body MaxResponseSize) ?hb = DoResponse ?big
           \<and> read_limited MaxResponseSize (BodyReads ?big) = (replicate MaxResponseSize CHR ''x'', None)
           \<and> length (replicate MaxResponseSize CHR ''x'') = MaxResponseSize"
    using Search_req_ok_calls [of "client_body MaxResponseSize"] rb
    by (simp add: client_body_def)
  have 3: "fst (makeRequest lib0 (client_broken MaxResponseSize) api0) = [?hx]
           \<and> httpClient (client_broken MaxResponseSize) ?hx = DoResponse ?bad
           \<and> read_limited MaxResponseSize (BodyReads ?bad)
               = (replicate MaxResponseSize CHR ''x'', Some ''connection reset'')"
    using makeRequest_lib0_calls [of "client_broken MaxResponseSize"] rx
    by (simp add: client_broken_def)
  have 4: "fst (makeRequest lib0 (client_body (MaxResponseSize - 1)) api0) = [?hs]
           \<and> httpClient (client_body (MaxResponseSize - 1)) ?hs = DoResponse ?small
           \<and> read_limited MaxResponseSize (BodyReads ?small)
               = (replicate (MaxResponseSize - 1) CHR ''x'', None)
           \<and> length (replicate (MaxResponseSize - 1) CHR ''x'') < MaxResponseSize"
    using makeRequest_lib0_calls [of "client_body (MaxResponseSize - 1)"] rs MaxResponseSize_pos
    by (simp add: client_body_def)
  from makeRequest_size_cap
         [of lib0 "client_body MaxResponseSize" api0 ?hb ?big
             "replicate MaxResponseSize CHR ''x''" req_ok "''m''"] 1 2
  have b: "snd (makeRequest lib0 (client_body MaxResponseSize) api0) = Inl response_too_large"
          "snd (Search lib0 (client_body MaxResponseSize) req_ok) = Inl response_too_large"
    by blast+
  from makeRequest_size_cap
         [of lib0 "client_broken MaxResponseSize" api0 ?hx ?bad
             "replicate MaxResponseSize CHR ''x''" req_ok "''connection reset''"] 3
  have x: "snd (makeRequest lib0 (client_broken MaxResponseSize) api0)
             = Inl (read_failed ''connection reset'')"
    by blast
  from makeRequest_size_cap
         [of lib0 "client_body (MaxResponseSize - 1)" api0 ?hs ?small
             "replicate (MaxResponseSize - 1) CHR ''x''" req_ok "''m''"] 4
  have s: "snd (makeRequest lib0 (client_body (MaxResponseSize - 1)) api0)
             = after_read lib0 200 (replicate (MaxResponseSize - 1) CHR ''x'')"
    by simp
  show ?thesis using 1 2 3 4 b x s by simp
qed

theorem makeRequest_read_error_counterexample:
  "httpClient (client_broken MaxResponseSize) (upstream_request (client_broken MaxResponseSize) api0)
     = DoResponse \<lparr>StatusCode = 200,
         BodyReads = [(replicate MaxResponseSize CHR ''x'', Some ''connection reset'')]\<rparr>
   \<and> length (fst (read_limited MaxResponseSize
                    [(replicate MaxResponseSize CHR ''x'', Some ''connection reset'')]))
       = MaxResponseSize
   \<and> snd (makeRequest lib0 (client_broken MaxResponseSize) api0)
       = Inl (Wrap [] (Sentinel ErrNetworkError) '': failed to read response: connection reset'')
   \<and> \<not> errors_Is (Wrap [] (Sentinel ErrNetworkError) '': failed to read response: connection reset'')
          ErrAPIError"
  using makeRequest_cap_broken read_limited_cap_broken
  by (simp add: client_broken_def read_failed_def)

section \<open>The default model\<close>

lemma option_step_Model:
  assumes "option_step L a key val = Inr a'"
  shows "req_Model a' = req_Model a"
proof (cases "length key > MaxOptionKeyLength")
  case True
  then show ?thesis using assms by (simp add: option_step_long_key)
next
  case kf: False
  show ?thesis
  proof (cases "length val > MaxOptionValueLength")
    case True
    then show ?thesis using kf assms option_step_long_val [of key val L a] by auto
  next
    case vf: False
    have k: "length key \<le> MaxOptionKeyLength" and v: "length val \<le> MaxOptionValueLength"
      using kf vf by simp_all
    consider (t) "ToLower L key = ''temperature''" | (p) "ToLower L key = ''top_p''"
      | (d) "ToLower L key = ''disable_search''" | (f) "ToLower L key = ''search_domain_filter''"
      | (m) "ToLower L key = ''search_mode''"
      | (u) "ToLower L key \<notin> {''temperature'', ''top_p'', ''disable_search'',
                                   ''search_domain_filter'', ''search_mode''}"
      by blast
    then show ?thesis
    proof cases
      case t
      show ?thesis using assms
        by (auto simp: option_step_temperature [OF k v t] split: option.splits if_splits)
    next
      case p
      show ?thesis using assms
        by (auto simp: option_step_top_p [OF k v p] split: option.splits if_splits)
    next
      case d
      show ?thesis using assms
        by (auto simp: option_step_disable_search [OF k v d] split: option.splits)
    next
      case f
      show ?thesis using assms
        by (auto simp: option_step_search_domain_filter [OF k v f] split: if_splits)
    next
      case m
      show ?thesis using assms
        by (auto simp: option_step_search_mode [OF k v m] split: if_splits)
    next
      case u
      show ?thesis using assms by (simp add: option_step_unknown [OF k v u])
    qed
  qed
qed

lemma processSearchOptions_Model:
  "processSearchOptions L a opts = (a', err) \<Longrightarrow> req_Model a' = req_Model a"
proof (induction opts arbitrary: a)
  case Nil
  then show ?case by simp
next
  case (Cons p opts)
  obtain key val where p: "p = (key, val)" by (cases p)
  show ?case
  proof (cases "option_step L a key val")
    case (Inl e)
    then show ?thesis using Cons.prems p by simp
  next
    case (Inr a1)
    then have "processSearchOptions L a1 opts = (a', err)" using Cons.prems p by simp
    then have "req_Model a' = req_Model a1" by (rule Cons.IH)
    then show ?thesis using option_step_Model [OF Inr] by simp
  qed
qed

lemma SearchRequestToAPI_Model:
  assumes "SearchRequestToAPI L req = Inr apiReq"
  shows "req_Model apiReq = Model req"
proof -
  let ?a = "(let apiReq = \<lparr>req_Model = Model req,
                     req_Messages = [\<lparr>msg_Role = ''user'', msg_Content = Query req\<rparr>],
                     req_MaxTokens = None, req_Temperature = None, req_TopP = None,
                     req_Stream = False, req_SearchMode = SearchMode req,
                     req_DisableSearch = None, req_SearchDomainFilter = [],
                     req_ReasoningEffort = []\<rparr>;
                   apiReq = (if MaxTokens req > 0 then apiReq\<lparr>req_MaxTokens := Some (MaxTokens req)\<rparr> else apiReq);
                   apiReq = (if length (Sources req) > 0 then apiReq\<lparr>req_SearchDomainFilter := Sources req\<rparr> else apiReq)
                  in apiReq)"
  have m: "req_Model ?a = Model req" by (simp add: Let_def)
  obtain a' err where r: "processSearchOptions L ?a (Options req) = (a', err)"
    by (cases "processSearchOptions L ?a (Options req)")
  have "SearchRequestToAPI L req =
          (case err of Some e \<Rightarrow> Inl (Wrap ''failed to process search options: '' e []) | None \<Rightarrow> Inr a')"
    using r unfolding SearchRequestToAPI_def Let_def by (simp split: option.splits)
  with assms have "a' = apiReq" by (simp split: option.splits)
  then show ?thesis using processSearchOptions_Model [OF r] m by simp
qed

text \<open>
  Claim C8, as amended. For every request that passes \<open>Validate\<close> and has no
  \<open>search_domain_filter\<close> option that lists more than ten valid domains, \<open>Search\<close>
  translates the request and hands \<open>makeRequest\<close> a wire request whose model field is
  \<open>DefaultModel\<close> (the adapter's constant \<open>sonar\<close>) when the request's model is
  empty, and the request's own model otherwise; the field is never empty. Every
  upstream call that \<open>Search\<close> issues carries that wire request as its body, and when
  the HTTP request can be built for the client's URL exactly that one call is issued.
\<close>

theorem Search_default_model:
  assumes "Validate L req = None"
      and "\<forall>p \<in> set (Options req). ToLower L (fst p) = ''search_domain_filter''
             \<longrightarrow> length (valid_domains L (split_comma (snd p))) \<le> 10"
  shows "\<exists>apiReq.
           SearchRequestToAPI L (if Model req = [] then req\<lparr>Model := DefaultModel\<rparr> else req) = Inr apiReq
           \<and> req_Model apiReq = (if Model req = [] then DefaultModel else Model req)
           \<and> req_Model apiReq \<noteq> []
           \<and> fst (Search L c req) = fst (makeRequest L c apiReq)
           \<and> snd (Search L c req) =
               (case snd (makeRequest L c apiReq) of Inl err \<Rightarrow> Inl err
                | Inr apiResp \<Rightarrow> Inr (APIResponseToSearchResult apiResp))
           \<and> (\<forall>h \<in> set (fst (Search L c req)). http_Body h = apiReq)
           \<and> (NewRequestErr L (baseURL c @ ChatCompletionsEndpoint) = None
                \<longrightarrow> fst (Search L c req) = [upstream_request c apiReq])"
proof -
  let ?r = "if Model req = [] then req\<lparr>Model := DefaultModel\<rparr> else req"
  have o: "Options ?r = Options req" by simp
  have b: "\<forall>p \<in> set (Options req). length (fst p) \<le> 100 \<and> length (snd p) \<le> 1000"
    using assms(1) Validate_None_iff [of L req] by simp
  have "\<not> (\<exists>p \<in> set (Options ?r). fails_request L (fst p) (snd p))"
    unfolding o using b assms(2)
    by (auto simp: fails_request_def MaxOptionValueLength_def)
  then have "\<not> (\<exists>e. SearchRequestToAPI L ?r = Inl e)"
    using SearchRequestToAPI_fails_iff [of L ?r] by simp
  then obtain apiReq where a: "SearchRequestToAPI L ?r = Inr apiReq"
    by (cases "SearchRequestToAPI L ?r") auto
  have m: "req_Model apiReq = (if Model req = [] then DefaultModel else Model req)"
    using SearchRequestToAPI_Model [OF a] by simp
  have n: "req_Model apiReq \<noteq> []"
    using m by (simp add: DefaultModel_def)
  have s: "fst (Search L c req) = fst (makeRequest L c apiReq)"
    using assms(1) a by (simp add: Search_unfold split del: if_split)
  have r: "snd (Search L c req) =
               (case snd (makeRequest L c apiReq) of Inl err \<Rightarrow> Inl err
                | Inr apiResp \<Rightarrow> Inr (APIResponseToSearchResult apiResp))"
    using assms(1) a by (simp add: Search_unfold split del: if_split)
  have h: "\<forall>h \<in> set (fst (Search L c req)). http_Body h = apiReq"
    using s by (simp add: makeRequest_calls upstream_request_def)
  have u: "NewRequestErr L (baseURL c @ ChatCompletionsEndpoint) = None
                \<longrightarrow> fst (Search L c req) = [upstream_request c apiReq]"
    using s by (simp add: makeRequest_calls)
  show ?thesis by (rule exI [of _ apiReq]) (intro conjI a m n s r h u)
qed

lemma Validate_lib0_req_ok:
  "Validate lib0 (req_ok\<lparr>Model := m\<rparr>) = None \<longleftrightarrow>
     m = [] \<or> m \<in> {''sonar'', ''sonar-pro'', ''sonar-reasoning'',
                      ''sonar-reasoning-pro'', ''sonar-deep-research''}"
proof -
  have t: "TrimSpace lib0 ''What is quantum computing?'' \<noteq> []"
    by (simp add: lib0_def ascii_TrimSpace_def asciiSpace_def)
  show ?thesis using t by (simp add: Validate_None_iff req_ok_def)
qed

theorem Search_default_model_witness:
  "Validate lib0 (req_ok\<lparr>Model := []\<rparr>) = None
   \<and> fst (Search lib0 client0 (req_ok\<lparr>Model := []\<rparr>)) = [upstream_request client0 api0]
   \<and> req_Model (http_Body (upstream_request client0 api0)) = DefaultModel
   \<and> Validate lib0 (req_ok\<lparr>Model := ''sonar-pro''\<rparr>) = None
   \<and> fst (Search lib0 client0 (req_ok\<lparr>Model := ''sonar-pro''\<rparr>))
       = [upstream_request client0 (api0\<lparr>req_Model := ''sonar-pro''\<rparr>)]"
proof -
  have v1: "Validate lib0 (req_ok\<lparr>Model := []\<rparr>) = None"
    by (simp add: Validate_lib0_req_ok)
  have v2: "Validate lib0 (req_ok\<lparr>Model := ''sonar-pro''\<rparr>) = None"
    by (simp add: Validate_lib0_req_ok)
  have o1: "\<forall>p \<in> set (Options (req_ok\<lparr>Model := []\<rparr>)). ToLower lib0 (fst p) = ''search_domain_filter''
             \<longrightarrow> length (valid_domains lib0 (split_comma (snd p))) \<le> 10"
    by (simp add: req_ok_def)
  have o2: "\<forall>p \<in> set (Options (req_ok\<lparr>Model := ''sonar-pro''\<rparr>)).
             ToLower lib0 (fst p) = ''search_domain_filter''
             \<longrightarrow> length (valid_domains lib0 (split_comma (snd p))) \<le> 10"
    by (simp add: req_ok_def)
  have a1: "SearchRequestToAPI lib0 (req_ok\<lparr>Model := DefaultModel\<rparr>) = Inr api0"
    by (simp add: SearchRequestToAPI_def req_ok_def api0_def DefaultModel_def)
  have a2: "SearchRequestToAPI lib0 (req_ok\<lparr>Model := ''sonar-pro''\<rparr>)
              = Inr (api0\<lparr>req_Model := ''sonar-pro''\<rparr>)"
    by (simp add: SearchRequestToAPI_def req_ok_def api0_def)
  have n: "NewRequestErr lib0 (baseURL client0 @ ChatCompletionsEndpoint) = None"
    by (simp add: lib0_def)
  from Search_default_model [OF v1 o1, of client0] a1 n
  have 1: "fst (Search lib0 client0 (req_ok\<lparr>Model := []\<rparr>)) = [upstream_request client0 api0]"
    by auto
  from Search_default_model [OF v2 o2, of client0] a2 n
  have 2: "fst (Search lib0 client0 (req_ok\<lparr>Model := ''sonar-pro''\<rparr>))
             = [upstream_request client0 (api0\<lparr>req_Model := ''sonar-pro''\<rparr>)]"
    by auto
  have 3: "req_Model (http_Body (upstream_request client0 api0)) = DefaultModel"
    by (simp add: upstream_request_def api0_def DefaultModel_def)
  show ?thesis using v1 v2 1 2 3 by simp
qed

theorem Search_default_model_counterexample:
  "Validate lib0 req_many_domains = None
   \<and> Model req_many_domains = []
   \<and> Search lib0 client0 req_many_domains =
       ([], Inl (Wrap ''failed to convert search request: ''
                   (Wrap ''failed to process search options: ''
                      (Opaque ''too many domains in search_domain_filter: 11 > 10'') []) []))"
proof -
  have t: "TrimSpace lib0 ''What is quantum computing?'' \<noteq> []"
    by (simp add: lib0_def ascii_TrimSpace_def asciiSpace_def)
  have v: "Validate lib0 req_many_domains = None"
    using t by (simp add: Validate_None_iff req_many_domains_def req_ok_def eleven_domains_def)
  have m: "Model req_many_domains = []"
    by (simp add: req_many_domains_def)
  have a: "SearchRequestToAPI lib0 (req_many_domains\<lparr>Model := DefaultModel\<rparr>)
             = Inl (Wrap ''failed to process search options: ''
                      (Opaque ''too many domains in search_domain_filter: 11 > 10'') [])"
    using processSearchOptions_eleven
    by (simp add: SearchRequestToAPI_def req_many_domains_def req_ok_def DefaultModel_def
          api0_def)
  show ?thesis using v m a by (simp add: Search_unfold)
qed

section \<open>Responses of the protocol handler\<close>

lemma createErrorResponse_eq:
  "createErrorResponse L reqid code message data =
     (Encoded (error_response reqid code message (map_option error_text data)), None)"
  by (cases data) (simp_all add: createErrorResponse_def json_Marshal_def error_response_def)

lemma ExecuteTool_result: "\<exists>r. fst (ExecuteTool s name args) = Some r"
  by (simp add: ExecuteTool_def split: option.splits sum.splits)

lemma handleToolCall_Returns: "\<exists>r. handleToolCall L s params = Returns r"
proof (cases "MarshalParamsErr L params")
  case (Some m)
  then show ?thesis by (simp add: handleToolCall_def)
next
  case None
  show ?thesis
  proof (cases "UnmarshalToolCallParams L params")
    case (Inl m)
    then show ?thesis using None by (simp add: handleToolCall_def)
  next
    case (Inr toolParams)
    obtain r where r: "fst (ExecuteTool s (tcp_Name toolParams) (tcp_Arguments toolParams)) = Some r"
      using ExecuteTool_result by blast
    then obtain e where "ExecuteTool s (tcp_Name toolParams) (tcp_Arguments toolParams) = (Some r, e)"
      by (cases "ExecuteTool s (tcp_Name toolParams) (tcp_Arguments toolParams)") simp
    then show ?thesis using None Inr
      by (cases e) (simp_all add: handleToolCall_def)
  qed
qed

lemma respond_shape:
  "\<exists>resp. respond L request r = (Encoded resp, None)
     \<and> resp_JSONRPC resp = ''2.0'' \<and> resp_ID resp = ID request
     \<and> ((resp_Result resp = None) = (resp_Error resp \<noteq> None))"
  by (auto simp: respond_def createErrorResponse_eq error_response_def json_Marshal_def Let_def
        split: sum.splits option.splits)

lemma HandleRequest_shape:
  "\<exists>resp. HandleRequest L s raw = Returns (Encoded resp, None)
     \<and> resp_JSONRPC resp = ''2.0''
     \<and> ((resp_Result resp = None) = (resp_Error resp \<noteq> None))
     \<and> (UnmarshalRequest L raw = Inr req \<longrightarrow> resp_ID resp = ID req)"
proof (cases "UnmarshalRequest L raw")
  case (Inl m)
  then show ?thesis
    by (simp add: HandleRequest_def createErrorResponse_eq error_response_def)
next
  case (Inr request)
  consider (v) "JSONRPC request \<noteq> ''2.0''"
    | (l) "JSONRPC request = ''2.0''" "Method request = ''tools/list''"
    | (c) "JSONRPC request = ''2.0''" "Method request = ''tools/call''"
    | (u) "JSONRPC request = ''2.0''" "Method request \<noteq> ''tools/list''"
          "Method request \<noteq> ''tools/call''"
    by blast
  then show ?thesis
  proof cases
    case v
    then show ?thesis using Inr
      by (simp add: HandleRequest_def createErrorResponse_eq error_response_def)
  next
    case l
    have "HandleRequest L s raw = Returns (respond L request (handleToolsList s (Params request)))"
      using Inr l by (simp add: HandleRequest_def)
    then show ?thesis
      using respond_shape [of L request "handleToolsList s (Params request)"] Inr by auto
  next
    case c
    obtain r where r: "handleToolCall L s (Params request) = Returns r"
      using handleToolCall_Returns by blast
    have "HandleRequest L s raw = Returns (respond L request r)"
      using Inr c r by (simp add: HandleRequest_def)
    then show ?thesis
      using respond_shape [of L request r] Inr by auto
  next
    case u
    then show ?thesis using Inr
      by (simp add: HandleRequest_def createErrorResponse_eq error_response_def)
  qed
qed

text \<open>
  Claim C1. For every raw input \<open>HandleRequest\<close> returns exactly one response, the
  encoding of a JSON-RPC 2.0 envelope that holds either a result or an error, with a nil
  Go error. When the bytes do not decode to a request envelope, the response is the
  error with code -32700 and no id. When they decode and the \<open>jsonrpc\<close> field is not
  \<open>2.0\<close>, it is the error with code -32600. When the field is \<open>2.0\<close> and the method
  is neither \<open>tools/list\<close> nor \<open>tools/call\<close>, it is the error with code -32601. In
  every response to bytes that decode, the id is the id of the request.
\<close>

theorem HandleRequest_error_codes:
  "(UnmarshalRequest L raw = Inl m \<longrightarrow>
      HandleRequest L s raw
        = Returns (Encoded (error_response AnyNil (- 32700) ''Parse error'' (Some m)), None))
   \<and> (UnmarshalRequest L raw = Inr req \<and> JSONRPC req \<noteq> ''2.0'' \<longrightarrow>
      HandleRequest L s raw
        = Returns (Encoded (error_response (ID req) (- 32600) ''Invalid JSONRPC version'' None), None))
   \<and> (UnmarshalRequest L raw = Inr req \<and> JSONRPC req = ''2.0''
        \<and> Method req \<noteq> ''tools/list'' \<and> Method req \<noteq> ''tools/call'' \<longrightarrow>
      HandleRequest L s raw
        = Returns (Encoded (error_response (ID req) (- 32601)
                              (''Method not found: '' @ Method req) None), None))
   \<and> (\<exists>resp. HandleRequest L s raw = Returns (Encoded resp, None)
         \<and> resp_JSONRPC resp = ''2.0''
         \<and> ((resp_Result resp = None) = (resp_Error resp \<noteq> None))
         \<and> (UnmarshalRequest L raw = Inr req \<longrightarrow> resp_ID resp = ID req))"
proof (intro conjI impI)
  assume "UnmarshalRequest L raw = Inl m"
  then show "HandleRequest L s raw
        = Returns (Encoded (error_response AnyNil (- 32700) ''Parse error'' (Some m)), None)"
    by (simp add: HandleRequest_def createErrorResponse_eq MCPErrorParseError_def)
next
  assume "UnmarshalRequest L raw = Inr req \<and> JSONRPC req \<noteq> ''2.0''"
  then show "HandleRequest L s raw
        = Returns (Encoded (error_response (ID req) (- 32600) ''Invalid JSONRPC version'' None), None)"
    by (simp add: HandleRequest_def createErrorResponse_eq MCPErrorInvalidRequest_def)
next
  assume "UnmarshalRequest L raw = Inr req \<and> JSONRPC req = ''2.0''
        \<and> Method req \<noteq> ''tools/list'' \<and> Method req \<noteq> ''tools/call''"
  then show "HandleRequest L s raw
        = Returns (Encoded (error_response (ID req) (- 32601)
                              (''Method not found: '' @ Method req) None), None)"
    by (simp add: HandleRequest_def createErrorResponse_eq MCPErrorMethodNotFound_def)
next
  show "\<exists>resp. HandleRequest L s raw = Returns (Encoded resp, None)
         \<and> resp_JSONRPC resp = ''2.0''
         \<and> ((resp_Result resp = None) = (resp_Error resp \<noteq> None))
         \<and> (UnmarshalRequest L raw = Inr req \<longrightarrow> resp_ID resp = ID req)"
    by (rule HandleRequest_shape)
qed

theorem HandleRequest_error_codes_witness:
  "UnmarshalRequest mcplib0 ''not json'' = Inl ''invalid character''
   \<and> HandleRequest mcplib0 srv0 ''not json''
       = Returns (Encoded (error_response AnyNil (- 32700) ''Parse error''
                             (Some ''invalid character'')), None)
   \<and> UnmarshalRequest mcplib0 raw_version_1
       = Inr \<lparr>JSONRPC = ''1.0'', ID = AnyNil, Method = ''tools/list'', Params = AnyNil\<rparr>
   \<and> HandleRequest mcplib0 srv0 raw_version_1
       = Returns (Encoded (error_response AnyNil (- 32600) ''Invalid JSONRPC version'' None), None)
   \<and> UnmarshalRequest mcplib0 raw_unknown_method
       = Inr \<lparr>JSONRPC = ''2.0'', ID = AnyNumber 7, Method = ''resources/list'', Params = AnyNil\<rparr>
   \<and> HandleRequest mcplib0 srv0 raw_unknown_method
       = Returns (Encoded (error_response (AnyNumber 7) (- 32601)
                             ''Method not found: resources/list'' None), None)"
proof -
  let ?r1 = "\<lparr>JSONRPC = ''1.0'', ID = AnyNil, Method = ''tools/list'', Params = AnyNil\<rparr>"
  let ?r2 = "\<lparr>JSONRPC = ''2.0'', ID = AnyNumber 7, Method = ''resources/list'', Params = AnyNil\<rparr>"
  have a: "UnmarshalRequest mcplib0 ''not json'' = Inl ''invalid character''"
    by (simp add: mcplib0_def raw_version_1_def raw_unknown_method_def)
  have b: "UnmarshalRequest mcplib0 raw_version_1 = Inr ?r1"
    by (simp add: mcplib0_def)
  have c: "UnmarshalRequest mcplib0 raw_unknown_method = Inr ?r2"
    by (simp add: mcplib0_def raw_version_1_def raw_unknown_method_def)
  from HandleRequest_error_codes [of mcplib0 "''not json''" "''invalid character''" srv0 ?r1] a
  have 1: "HandleRequest mcplib0 srv0 ''not json''
       = Returns (Encoded (error_response AnyNil (- 32700) ''Parse error''
                             (Some ''invalid character'')), None)"
    by blast
  from HandleRequest_error_codes [of mcplib0 raw_version_1 "''x''" srv0 ?r1] b
  have 2: "HandleRequest mcplib0 srv0 raw_version_1
       = Returns (Encoded (error_response AnyNil (- 32600) ''Invalid JSONRPC version'' None), None)"
    by simp
  from HandleRequest_error_codes [of mcplib0 raw_unknown_method "''x''" srv0 ?r2] c
  have 3: "HandleRequest mcplib0 srv0 raw_unknown_method
       = Returns (Encoded (error_response (AnyNumber 7) (- 32601)
                             ''Method not found: resources/list'' None), None)"
    by simp
  show ?thesis using a b c 1 2 3 by simp
qed

end
